theory Spec2Isabelle
  imports Complex_Main
begin

section \<open>Feature derivation of the taxi workshop notebooks (\<open>prep_df\<close>)\<close>

text \<open>
  The notebooks define one function of their own, \<open>prep_df\<close>, which turns a pandas
  DataFrame of raw taxi trips into a DataFrame of model features:
  \<^verbatim>\<open>
  def prep_df(taxi_df):
      df = taxi_df[taxi_df.fare_amount > 0][raw_features].copy()  # avoid divide-by-zero
      df[label] = df.tip_amount / df.fare_amount
      df['pickup_weekday'] = df.tpep_pickup_datetime.dt.weekday
      df['pickup_weekofyear'] = df.tpep_pickup_datetime.dt.weekofyear
      df['pickup_hour'] = df.tpep_pickup_datetime.dt.hour
      df['pickup_week_hour'] = (df.pickup_weekday * 24) + df.pickup_hour
      df['pickup_minute'] = df.tpep_pickup_datetime.dt.minute
      df = df[features + [label]].astype(float).fillna(-1)
      return df
  \<close>
  The embedding below follows it line by line. The DataFrame operations it calls belong
  to pandas; they are modelled as far as \<open>prep_df\<close> uses them.
\<close>

subsection \<open>Cell values\<close>

text \<open>
  A float64 cell. Finite values are idealised as real numbers (rounding, overflow and the
  sign of zero are not modelled); the two infinities and NaN, which pandas uses for a
  missing number, are kept.
\<close>

datatype float = Fin real | PInf | NInf | NaN

text \<open>\<open>a > b\<close> on floats: every comparison with NaN is false.\<close>

fun float_gt :: "float \<Rightarrow> float \<Rightarrow> bool" where
  "float_gt (Fin x) (Fin y) = (y < x)"
| "float_gt PInf (Fin y) = True"
| "float_gt PInf NInf = True"
| "float_gt (Fin x) NInf = True"
| "float_gt _ _ = False"

text \<open>
  \<open>a / b\<close> on floats. numpy does not raise on a zero divisor: the quotient is an
  infinity, or NaN for \<open>0 / 0\<close>.
\<close>

fun float_div :: "float \<Rightarrow> float \<Rightarrow> float" where
  "float_div NaN _ = NaN"
| "float_div _ NaN = NaN"
| "float_div (Fin x) (Fin y) =
     (if y \<noteq> 0 then Fin (x / y)
      else if 0 < x then PInf else if x < 0 then NInf else NaN)"
| "float_div (Fin x) _ = Fin 0"
| "float_div PInf (Fin y) = (if y < 0 then NInf else PInf)"
| "float_div NInf (Fin y) = (if y < 0 then PInf else NInf)"
| "float_div _ _ = NaN"

fun float_mul :: "float \<Rightarrow> float \<Rightarrow> float" where
  "float_mul NaN _ = NaN"
| "float_mul _ NaN = NaN"
| "float_mul (Fin x) (Fin y) = Fin (x * y)"
| "float_mul (Fin x) PInf = (if 0 < x then PInf else if x < 0 then NInf else NaN)"
| "float_mul (Fin x) NInf = (if 0 < x then NInf else if x < 0 then PInf else NaN)"
| "float_mul PInf (Fin y) = (if 0 < y then PInf else if y < 0 then NInf else NaN)"
| "float_mul NInf (Fin y) = (if 0 < y then NInf else if y < 0 then PInf else NaN)"
| "float_mul PInf PInf = PInf"
| "float_mul NInf NInf = PInf"
| "float_mul _ _ = NInf"

fun float_add :: "float \<Rightarrow> float \<Rightarrow> float" where
  "float_add NaN _ = NaN"
| "float_add _ NaN = NaN"
| "float_add (Fin x) (Fin y) = Fin (x + y)"
| "float_add PInf NInf = NaN"
| "float_add NInf PInf = NaN"
| "float_add PInf _ = PInf"
| "float_add _ PInf = PInf"
| "float_add _ _ = NInf"

text \<open>
  A timestamp of a datetime64 column, by its calendar fields. The four fields that
  \<open>prep_df\<close> reads come from it the way the ISO 8601 calendar defines them (and the way
  Python's \<open>datetime\<close> computes them): \<open>weekday\<close> is 0 on Monday and 6 on Sunday,
  \<open>weekofyear\<close> is the ISO week number. The fields of a timestamp are those of a date
  of the calendar, with the month from 1 to 12.
\<close>

record timestamp =
  year :: int
  month :: int
  day :: int
  hour :: int
  minute :: int
  second :: int

definition is_leap :: "int \<Rightarrow> bool" where
  "is_leap y = (y mod 4 = 0 \<and> (y mod 100 \<noteq> 0 \<or> y mod 400 = 0))"

definition days_before_year :: "int \<Rightarrow> int" where
  "days_before_year y = (y - 1) * 365 + (y - 1) div 4 - (y - 1) div 100 + (y - 1) div 400"

definition days_before_month :: "int \<Rightarrow> int \<Rightarrow> int" where
  "days_before_month y m =
     ([0, 31, 59, 90, 120, 151, 181, 212, 243, 273, 304, 334] ! nat ((m - 1) mod 12))
       + (if 2 < m \<and> is_leap y then 1 else 0)"

definition ymd2ord :: "int \<Rightarrow> int \<Rightarrow> int \<Rightarrow> int" where
  "ymd2ord y m d = days_before_year y + days_before_month y m + d"

definition weekday :: "timestamp \<Rightarrow> int" where
  "weekday t = (ymd2ord (year t) (month t) (day t) + 6) mod 7"

definition isoweek1monday :: "int \<Rightarrow> int" where
  "isoweek1monday y =
     (let firstday = ymd2ord y 1 1;
          firstweekday = (firstday + 6) mod 7;
          week1monday = firstday - firstweekday
      in if 3 < firstweekday then week1monday + 7 else week1monday)"

definition weekofyear :: "timestamp \<Rightarrow> int" where
  "weekofyear t =
     (let y = year t;
          today = ymd2ord y (month t) (day t);
          week = (today - isoweek1monday y) div 7
      in if week < 0 then (today - isoweek1monday (y - 1)) div 7 + 1
         else if 52 \<le> week \<and> isoweek1monday (y + 1) \<le> today then 1
         else week + 1)"

subsection \<open>Series and DataFrames\<close>

text \<open>
  A column has one dtype. A missing cell is NaN in a float64 column, NaT (\<open>None\<close>) in a
  datetime64 column and \<open>None\<close> in an object column of strings. Integer columns are
  represented by their values as floats, which is what \<open>astype(float)\<close> makes of them.
\<close>

datatype series =
    Float64 "float list"
  | Datetime64 "timestamp option list"
  | Object "string option list"

text \<open>
  A DataFrame: the row labels (its index) and the columns in their order, each with its
  name. Every column has one cell for each row label.
\<close>

record dataframe =
  index :: "int list"
  columns :: "(string \<times> series) list"

datatype error =
    KeyError string
  | AttributeError string
  | TypeError
  | ValueError
  | NameError

definition bind :: "error + 'a \<Rightarrow> ('a \<Rightarrow> error + 'b) \<Rightarrow> error + 'b" where
  "bind m f = (case m of Inl e \<Rightarrow> Inl e | Inr x \<Rightarrow> f x)"

fun series_len :: "series \<Rightarrow> nat" where
  "series_len (Float64 xs) = length xs"
| "series_len (Datetime64 xs) = length xs"
| "series_len (Object xs) = length xs"

text \<open>
  The tables that pandas builds from a CSV file: the column names are distinct, and
  every column has as many cells as the table has rows.
\<close>

definition wf_frame :: "dataframe \<Rightarrow> bool" where
  "wf_frame df =
     (distinct (map fst (columns df)) \<and>
      list_all (\<lambda>c. series_len (snd c) = length (index df)) (columns df))"

text \<open>
  \<open>df.name\<close>: the column of that name. The column names of a table are distinct
  (\<open>wf_frame\<close>); a name that occurs twice, for which pandas returns both columns as a
  DataFrame, is not modelled.
\<close>

definition getattr :: "dataframe \<Rightarrow> string \<Rightarrow> error + series" where
  "getattr df name =
     (case map_of (columns df) name of
        None \<Rightarrow> Inl (AttributeError name)
      | Some s \<Rightarrow> Inr s)"

text \<open>
  The numeric cells of a column in a comparison or in arithmetic. A string or a
  timestamp there raises TypeError; a missing cell of an object column is NaN.
\<close>

fun numeric :: "series \<Rightarrow> error + float list" where
  "numeric (Float64 xs) = Inr xs"
| "numeric (Datetime64 xs) = Inl TypeError"
| "numeric (Object xs) =
     (if list_all (\<lambda>x. x = None) xs then Inr (map (\<lambda>_. NaN) xs) else Inl TypeError)"

text \<open>\<open>s > c\<close>: the boolean mask, one flag for each row.\<close>

definition series_gt :: "series \<Rightarrow> float \<Rightarrow> error + bool list" where
  "series_gt s c = bind (numeric s) (\<lambda>xs. Inr (map (\<lambda>x. float_gt x c) xs))"

text \<open>
  \<open>a / b\<close>, \<open>a + b\<close> and \<open>a * c\<close>, cell by cell. Both operands of the two binary
  operations are columns of the same DataFrame in \<open>prep_df\<close>, so pandas aligns them row
  by row.
\<close>

definition series_div :: "series \<Rightarrow> series \<Rightarrow> error + series" where
  "series_div a b =
     bind (numeric a) (\<lambda>xs. bind (numeric b) (\<lambda>ys.
       Inr (Float64 (map (\<lambda>(x, y). float_div x y) (zip xs ys)))))"

definition series_add :: "series \<Rightarrow> series \<Rightarrow> error + series" where
  "series_add a b =
     bind (numeric a) (\<lambda>xs. bind (numeric b) (\<lambda>ys.
       Inr (Float64 (map (\<lambda>(x, y). float_add x y) (zip xs ys)))))"

definition series_mul :: "series \<Rightarrow> float \<Rightarrow> error + series" where
  "series_mul a c = bind (numeric a) (\<lambda>xs. Inr (Float64 (map (\<lambda>x. float_mul x c) xs)))"

text \<open>
  \<open>s.dt.field\<close>: only a datetime64 column has the accessor. The field of NaT is NaN.
\<close>

definition dt_cell :: "(timestamp \<Rightarrow> int) \<Rightarrow> timestamp option \<Rightarrow> float" where
  "dt_cell field x = (case x of None \<Rightarrow> NaN | Some t \<Rightarrow> Fin (of_int (field t)))"

fun dt :: "(timestamp \<Rightarrow> int) \<Rightarrow> series \<Rightarrow> error + series" where
  "dt field (Datetime64 xs) = Inr (Float64 (map (dt_cell field) xs))"
| "dt field _ = Inl (AttributeError ''dt'')"

text \<open>\<open>df[mask]\<close>: the rows whose flag is set, in their order, with their labels.\<close>

definition select :: "bool list \<Rightarrow> 'a list \<Rightarrow> 'a list" where
  "select msk xs = map snd (filter fst (zip msk xs))"

fun series_select :: "bool list \<Rightarrow> series \<Rightarrow> series" where
  "series_select msk (Float64 xs) = Float64 (select msk xs)"
| "series_select msk (Datetime64 xs) = Datetime64 (select msk xs)"
| "series_select msk (Object xs) = Object (select msk xs)"

definition getitem_mask :: "dataframe \<Rightarrow> bool list \<Rightarrow> dataframe" where
  "getitem_mask df msk =
     \<lparr>index = select msk (index df),
      columns = map (\<lambda>(n, s). (n, series_select msk s)) (columns df)\<rparr>"

text \<open>
  \<open>df[names]\<close>: the named columns, in the order of the names, for a table with distinct
  column names (for a name that occurs twice pandas returns both columns).
\<close>

fun lookup_all :: "(string \<times> series) list \<Rightarrow> string list \<Rightarrow> error + (string \<times> series) list" where
  "lookup_all cs [] = Inr []"
| "lookup_all cs (n # ns) =
     (case map_of cs n of
        None \<Rightarrow> Inl (KeyError n)
      | Some s \<Rightarrow> bind (lookup_all cs ns) (\<lambda>rest. Inr ((n, s) # rest)))"

definition getitem_cols :: "dataframe \<Rightarrow> string list \<Rightarrow> error + dataframe" where
  "getitem_cols df names =
     bind (lookup_all (columns df) names) (\<lambda>cs. Inr \<lparr>index = index df, columns = cs\<rparr>)"

text \<open>
  \<open>df[name] = s\<close>: the column of that name is replaced where it stands; a new name is
  added as the last column.
\<close>

definition setitem :: "dataframe \<Rightarrow> string \<Rightarrow> series \<Rightarrow> dataframe" where
  "setitem df name s =
     (if name \<in> set (map fst (columns df))
      then df\<lparr>columns := map (\<lambda>(n, c). if n = name then (n, s) else (n, c)) (columns df)\<rparr>
      else df\<lparr>columns := columns df @ [(name, s)]\<rparr>)"

text \<open>
  \<open>df.astype(float)\<close>. A timestamp column raises TypeError. A string is converted by
  Python's \<open>float\<close>, which belongs to the language and is a parameter here: \<open>None\<close>
  where the string is not a number, which raises ValueError.
\<close>

fun parse_all :: "(string \<Rightarrow> float option) \<Rightarrow> string option list \<Rightarrow> error + float list" where
  "parse_all pf [] = Inr []"
| "parse_all pf (None # xs) = bind (parse_all pf xs) (\<lambda>ys. Inr (NaN # ys))"
| "parse_all pf (Some s # xs) =
     (case pf s of
        None \<Rightarrow> Inl ValueError
      | Some v \<Rightarrow> bind (parse_all pf xs) (\<lambda>ys. Inr (v # ys)))"

fun series_astype_float :: "(string \<Rightarrow> float option) \<Rightarrow> series \<Rightarrow> error + series" where
  "series_astype_float pf (Float64 xs) = Inr (Float64 xs)"
| "series_astype_float pf (Datetime64 xs) = Inl TypeError"
| "series_astype_float pf (Object xs) = bind (parse_all pf xs) (\<lambda>ys. Inr (Float64 ys))"

fun astype_cols ::
  "(string \<Rightarrow> float option) \<Rightarrow> (string \<times> series) list \<Rightarrow> error + (string \<times> series) list" where
  "astype_cols pf [] = Inr []"
| "astype_cols pf ((n, s) # cs) =
     bind (series_astype_float pf s) (\<lambda>s'.
     bind (astype_cols pf cs) (\<lambda>rest. Inr ((n, s') # rest)))"

definition astype_float :: "(string \<Rightarrow> float option) \<Rightarrow> dataframe \<Rightarrow> error + dataframe" where
  "astype_float pf df =
     bind (astype_cols pf (columns df)) (\<lambda>cs. Inr \<lparr>index = index df, columns = cs\<rparr>)"

text \<open>
  \<open>df.fillna(v)\<close> on float64 columns: every NaN becomes \<open>v\<close>. \<open>prep_df\<close> calls it
  right after \<open>astype(float)\<close>, so that no column of another dtype reaches it; such a
  column is left as it is here.
\<close>

definition fill :: "float \<Rightarrow> float \<Rightarrow> float" where
  "fill v x = (if x = NaN then v else x)"

fun series_fillna :: "float \<Rightarrow> series \<Rightarrow> series" where
  "series_fillna v (Float64 xs) = Float64 (map (fill v) xs)"
| "series_fillna v s = s"

definition fillna :: "float \<Rightarrow> dataframe \<Rightarrow> dataframe" where
  "fillna v df = df\<lparr>columns := map (\<lambda>(n, s). (n, series_fillna v s)) (columns df)\<rparr>"

subsection \<open>The object store\<close>

text \<open>
  Python variables hold references to DataFrame objects, and \<open>df[name] = s\<close> changes the
  object it is applied to. The store is the list of the objects made so far; a reference
  is a position in it. Every pandas operation of \<open>prep_df\<close> that returns a DataFrame
  returns a new object.
\<close>

type_synonym store = "dataframe list"

definition fetch :: "store \<Rightarrow> nat \<Rightarrow> error + dataframe" where
  "fetch st r = (if r < length st then Inr (st ! r) else Inl NameError)"

definition alloc :: "store \<Rightarrow> dataframe \<Rightarrow> store \<times> nat" where
  "alloc st df = (st @ [df], length st)"

definition store_setitem :: "store \<Rightarrow> nat \<Rightarrow> string \<Rightarrow> series \<Rightarrow> error + store" where
  "store_setitem st r name s =
     bind (fetch st r) (\<lambda>df. Inr (st[r := setitem df name s]))"

text \<open>\<open>df.name\<close> for the object a reference points to.\<close>

definition attr :: "store \<Rightarrow> nat \<Rightarrow> string \<Rightarrow> error + series" where
  "attr st r name = bind (fetch st r) (\<lambda>df. getattr df name)"

subsection \<open>\<open>prep_df\<close>\<close>

definition raw_features :: "string list" where
  "raw_features = [''tpep_pickup_datetime'', ''passenger_count'', ''tip_amount'', ''fare_amount'']"

definition features :: "string list" where
  "features = [''pickup_weekday'', ''pickup_weekofyear'', ''pickup_hour'',
               ''pickup_week_hour'', ''pickup_minute'', ''passenger_count'']"

definition label :: string where
  "label = ''tip_fraction''"

text \<open>
  The first line, \<open>df = taxi_df[taxi_df.fare_amount > 0][raw_features].copy()\<close>: three
  new objects, the last of which is \<open>df\<close>.
\<close>

definition prep_filter :: "store \<Rightarrow> nat \<Rightarrow> error + (store \<times> nat)" where
  "prep_filter st taxi_df =
     bind (attr st taxi_df ''fare_amount'') (\<lambda>fare.
     bind (series_gt fare (Fin 0)) (\<lambda>msk.
     bind (fetch st taxi_df) (\<lambda>t.
     case alloc st (getitem_mask t msk) of (st1, r1) \<Rightarrow>
     bind (fetch st1 r1) (\<lambda>t1.
     bind (getitem_cols t1 raw_features) (\<lambda>t2.
     case alloc st1 t2 of (st2, r2) \<Rightarrow>
     bind (fetch st2 r2) (\<lambda>t3.
     Inr (alloc st2 t3)))))))"

text \<open>The lines that add the label and the calendar columns to \<open>df\<close>.\<close>

definition prep_assign :: "store \<Rightarrow> nat \<Rightarrow> error + store" where
  "prep_assign st df =
     bind (attr st df ''tip_amount'') (\<lambda>tip.
     bind (attr st df ''fare_amount'') (\<lambda>fare.
     bind (series_div tip fare) (\<lambda>frac.
     bind (store_setitem st df label frac) (\<lambda>st1.
     bind (attr st1 df ''tpep_pickup_datetime'') (\<lambda>p1.
     bind (dt weekday p1) (\<lambda>wd.
     bind (store_setitem st1 df ''pickup_weekday'' wd) (\<lambda>st2.
     bind (attr st2 df ''tpep_pickup_datetime'') (\<lambda>p2.
     bind (dt weekofyear p2) (\<lambda>wy.
     bind (store_setitem st2 df ''pickup_weekofyear'' wy) (\<lambda>st3.
     bind (attr st3 df ''tpep_pickup_datetime'') (\<lambda>p3.
     bind (dt hour p3) (\<lambda>hr.
     bind (store_setitem st3 df ''pickup_hour'' hr) (\<lambda>st4.
     bind (attr st4 df ''pickup_weekday'') (\<lambda>wd'.
     bind (series_mul wd' (Fin 24)) (\<lambda>wd24.
     bind (attr st4 df ''pickup_hour'') (\<lambda>hr'.
     bind (series_add wd24 hr') (\<lambda>wh.
     bind (store_setitem st4 df ''pickup_week_hour'' wh) (\<lambda>st5.
     bind (attr st5 df ''tpep_pickup_datetime'') (\<lambda>p4.
     bind (dt minute p4) (\<lambda>mi.
     store_setitem st5 df ''pickup_minute'' mi))))))))))))))))))))"

text \<open>
  The last line, \<open>df = df[features + [label]].astype(float).fillna(-1)\<close>: three more
  new objects, the last of which is returned.
\<close>

definition prep_select :: "(string \<Rightarrow> float option) \<Rightarrow> store \<Rightarrow> nat \<Rightarrow> error + (store \<times> nat)" where
  "prep_select pf st df =
     bind (fetch st df) (\<lambda>d.
     bind (getitem_cols d (features @ [label])) (\<lambda>d1.
     case alloc st d1 of (st1, r1) \<Rightarrow>
     bind (fetch st1 r1) (\<lambda>d2.
     bind (astype_float pf d2) (\<lambda>d3.
     case alloc st1 d3 of (st2, r2) \<Rightarrow>
     bind (fetch st2 r2) (\<lambda>d4.
     Inr (alloc st2 (fillna (Fin (- 1)) d4)))))))"

text \<open>
  \<open>prep_df(taxi_df)\<close> in a store: the store afterwards and the reference returned, or
  the exception raised.
\<close>

definition prep_df :: "(string \<Rightarrow> float option) \<Rightarrow> store \<Rightarrow> nat \<Rightarrow> error + (store \<times> nat)" where
  "prep_df pf st taxi_df =
     bind (prep_filter st taxi_df) (\<lambda>(st1, df).
     bind (prep_assign st1 df) (\<lambda>st2.
     prep_select pf st2 df))"

text \<open>The DataFrame that the returned reference points to.\<close>

definition prep_df_out :: "(string \<Rightarrow> float option) \<Rightarrow> store \<Rightarrow> nat \<Rightarrow> error + dataframe" where
  "prep_df_out pf st taxi_df = bind (prep_df pf st taxi_df) (\<lambda>(st', r). fetch st' r)"

subsection \<open>Notions used in the statements\<close>

definition column :: "dataframe \<Rightarrow> string \<Rightarrow> series option" where
  "column df name = map_of (columns df) name"

text \<open>
  The positions of the rows whose fare is greater than 0, in the order of the table,
  given the cells \<open>fs\<close> of the fare column.
\<close>

definition kept :: "float list \<Rightarrow> nat list" where
  "kept fs = filter (\<lambda>i. float_gt (fs ! i) (Fin 0)) [0..<length fs]"

subsection \<open>The computation on values\<close>

text \<open>
  The same steps as functions of the DataFrame alone, without the store: what the lines
  that assign columns make of \<open>df\<close>, and the six objects that a call of
  \<open>prep_df\<close> adds to the store. They are related to \<open>prep_df\<close> by the lemmas
  \<open>prep_assign_val\<close> and \<open>prep_df_val\<close> below and serve the proofs only.
\<close>

definition assign_val :: "dataframe \<Rightarrow> error + dataframe" where
  "assign_val d0 =
     bind (getattr d0 ''tip_amount'') (\<lambda>tip.
     bind (getattr d0 ''fare_amount'') (\<lambda>fare.
     bind (series_div tip fare) (\<lambda>frac.
     case setitem d0 label frac of d1 \<Rightarrow>
     bind (getattr d1 ''tpep_pickup_datetime'') (\<lambda>p1.
     bind (dt weekday p1) (\<lambda>wd.
     case setitem d1 ''pickup_weekday'' wd of d2 \<Rightarrow>
     bind (getattr d2 ''tpep_pickup_datetime'') (\<lambda>p2.
     bind (dt weekofyear p2) (\<lambda>wy.
     case setitem d2 ''pickup_weekofyear'' wy of d3 \<Rightarrow>
     bind (getattr d3 ''tpep_pickup_datetime'') (\<lambda>p3.
     bind (dt hour p3) (\<lambda>hr.
     case setitem d3 ''pickup_hour'' hr of d4 \<Rightarrow>
     bind (getattr d4 ''pickup_weekday'') (\<lambda>wd'.
     bind (series_mul wd' (Fin 24)) (\<lambda>wd24.
     bind (getattr d4 ''pickup_hour'') (\<lambda>hr'.
     bind (series_add wd24 hr') (\<lambda>wh.
     case setitem d4 ''pickup_week_hour'' wh of d5 \<Rightarrow>
     bind (getattr d5 ''tpep_pickup_datetime'') (\<lambda>p4.
     bind (dt minute p4) (\<lambda>mi.
     Inr (setitem d5 ''pickup_minute'' mi))))))))))))))))"

definition prep_val :: "(string \<Rightarrow> float option) \<Rightarrow> dataframe \<Rightarrow> error + dataframe list" where
  "prep_val pf t =
     bind (getattr t ''fare_amount'') (\<lambda>fare.
     bind (series_gt fare (Fin 0)) (\<lambda>msk.
     case getitem_mask t msk of t1 \<Rightarrow>
     bind (getitem_cols t1 raw_features) (\<lambda>t2.
     bind (assign_val t2) (\<lambda>t3.
     bind (getitem_cols t3 (features @ [label])) (\<lambda>d1.
     bind (astype_float pf d1) (\<lambda>d3.
     Inr [t1, t2, t3, d1, d3, fillna (Fin (- 1)) d3]))))))"

text \<open>
  The shape of the table returned, given the row labels \<open>ix\<close>, the timestamps
  \<open>ds\<close>, the passenger counts \<open>pcs\<close>, the tips \<open>xs\<close> and the fares \<open>ys\<close> of the
  rows selected.
\<close>

definition out_frame ::
  "int list \<Rightarrow> timestamp option list \<Rightarrow> float list \<Rightarrow> float list \<Rightarrow> float list \<Rightarrow> dataframe" where
  "out_frame ix ds pcs xs ys =
     \<lparr>index = ix,
      columns =
        [(''pickup_weekday'', Float64 (map (\<lambda>d. fill (Fin (- 1)) (dt_cell weekday d)) ds)),
         (''pickup_weekofyear'', Float64 (map (\<lambda>d. fill (Fin (- 1)) (dt_cell weekofyear d)) ds)),
         (''pickup_hour'', Float64 (map (\<lambda>d. fill (Fin (- 1)) (dt_cell hour d)) ds)),
         (''pickup_week_hour'', Float64 (map (\<lambda>d. fill (Fin (- 1))
             (float_add (float_mul (dt_cell weekday d) (Fin 24)) (dt_cell hour d))) ds)),
         (''pickup_minute'', Float64 (map (\<lambda>d. fill (Fin (- 1)) (dt_cell minute d)) ds)),
         (''passenger_count'', Float64 (map (fill (Fin (- 1))) pcs)),
         (''tip_fraction'', Float64 (map (\<lambda>(x, y). fill (Fin (- 1)) (float_div x y)) (zip xs ys)))]\<rparr>"

subsection \<open>A table of three trips\<close>

text \<open>
  Three rows for the concrete instances below: a Monday trip, a trip with fare 0, and
  a trip whose timestamp, passenger count and tip are missing. The strings of the last
  column are never converted, so the conversion function can be the one that knows no
  number.
\<close>

definition no_parse :: "string \<Rightarrow> float option" where
  "no_parse s = None"

definition trips :: dataframe where
  "trips =
     \<lparr>index = [0, 1, 2],
      columns =
        [(''VendorID'', Float64 [Fin 1, Fin 2, Fin 1]),
         (''tpep_pickup_datetime'', Datetime64
            [Some \<lparr>year = 2019, month = 1, day = 7, hour = 13, minute = 45, second = 0\<rparr>,
             Some \<lparr>year = 2019, month = 1, day = 8, hour = 9, minute = 5, second = 30\<rparr>,
             None]),
         (''passenger_count'', Float64 [Fin 1, Fin 2, NaN]),
         (''tip_amount'', Float64 [Fin 2, Fin 1, NaN]),
         (''fare_amount'', Float64 [Fin 10, Fin 0, Fin 8]),
         (''store_and_fwd_flag'', Object [Some ''N'', None, Some ''Y''])]\<rparr>"

definition trips_out :: dataframe where
  "trips_out =
     \<lparr>index = [0, 2],
      columns =
        [(''pickup_weekday'', Float64 [Fin 0, Fin (- 1)]),
         (''pickup_weekofyear'', Float64 [Fin 2, Fin (- 1)]),
         (''pickup_hour'', Float64 [Fin 13, Fin (- 1)]),
         (''pickup_week_hour'', Float64 [Fin 13, Fin (- 1)]),
         (''pickup_minute'', Float64 [Fin 45, Fin (- 1)]),
         (''passenger_count'', Float64 [Fin 1, Fin (- 1)]),
         (''tip_fraction'', Float64 [Fin (1 / 5), Fin (- 1)])]\<rparr>"

text \<open>
  The store after \<open>prep_df\<close> has run on a store that holds this table only: the table,
  its rows with a positive fare, their four raw columns, \<open>df\<close> with its six new columns,
  the seven columns selected, the same as floats, and the table returned.
\<close>

definition trips_store :: store where
  "trips_store =
     [trips,
      \<lparr>index = [0, 2],
       columns =
         [(''VendorID'', Float64 [Fin 1, Fin 1]),
          (''tpep_pickup_datetime'', Datetime64
             [Some \<lparr>year = 2019, month = 1, day = 7, hour = 13, minute = 45, second = 0\<rparr>, None]),
          (''passenger_count'', Float64 [Fin 1, NaN]),
          (''tip_amount'', Float64 [Fin 2, NaN]),
          (''fare_amount'', Float64 [Fin 10, Fin 8]),
          (''store_and_fwd_flag'', Object [Some ''N'', Some ''Y''])]\<rparr>,
      \<lparr>index = [0, 2],
       columns =
         [(''tpep_pickup_datetime'', Datetime64
             [Some \<lparr>year = 2019, month = 1, day = 7, hour = 13, minute = 45, second = 0\<rparr>, None]),
          (''passenger_count'', Float64 [Fin 1, NaN]),
          (''tip_amount'', Float64 [Fin 2, NaN]),
          (''fare_amount'', Float64 [Fin 10, Fin 8])]\<rparr>,
      \<lparr>index = [0, 2],
       columns =
         [(''tpep_pickup_datetime'', Datetime64
             [Some \<lparr>year = 2019, month = 1, day = 7, hour = 13, minute = 45, second = 0\<rparr>, None]),
          (''passenger_count'', Float64 [Fin 1, NaN]),
          (''tip_amount'', Float64 [Fin 2, NaN]),
          (''fare_amount'', Float64 [Fin 10, Fin 8]),
          (''tip_fraction'', Float64 [Fin (1 / 5), NaN]),
          (''pickup_weekday'', Float64 [Fin 0, NaN]),
          (''pickup_weekofyear'', Float64 [Fin 2, NaN]),
          (''pickup_hour'', Float64 [Fin 13, NaN]),
          (''pickup_week_hour'', Float64 [Fin 13, NaN]),
          (''pickup_minute'', Float64 [Fin 45, NaN])]\<rparr>,
      \<lparr>index = [0, 2],
       columns =
         [(''pickup_weekday'', Float64 [Fin 0, NaN]),
          (''pickup_weekofyear'', Float64 [Fin 2, NaN]),
          (''pickup_hour'', Float64 [Fin 13, NaN]),
          (''pickup_week_hour'', Float64 [Fin 13, NaN]),
          (''pickup_minute'', Float64 [Fin 45, NaN]),
          (''passenger_count'', Float64 [Fin 1, NaN]),
          (''tip_fraction'', Float64 [Fin (1 / 5), NaN])]\<rparr>,
      \<lparr>index = [0, 2],
       columns =
         [(''pickup_weekday'', Float64 [Fin 0, NaN]),
          (''pickup_weekofyear'', Float64 [Fin 2, NaN]),
          (''pickup_hour'', Float64 [Fin 13, NaN]),
          (''pickup_week_hour'', Float64 [Fin 13, NaN]),
          (''pickup_minute'', Float64 [Fin 45, NaN]),
          (''passenger_count'', Float64 [Fin 1, NaN]),
          (''tip_fraction'', Float64 [Fin (1 / 5), NaN])]\<rparr>,
      trips_out]"

text \<open>
  The single trip of the worked example: fare 10, tip 2, one passenger, picked up on
  Monday 2019-01-07 at 13:45.
\<close>

definition monday_trip :: dataframe where
  "monday_trip =
     \<lparr>index = [0],
      columns =
        [(''tpep_pickup_datetime'', Datetime64
            [Some \<lparr>year = 2019, month = 1, day = 7, hour = 13, minute = 45, second = 0\<rparr>]),
         (''passenger_count'', Float64 [Fin 1]),
         (''tip_amount'', Float64 [Fin 2]),
         (''fare_amount'', Float64 [Fin 10])]\<rparr>"

subsection \<open>A table with passenger counts as strings\<close>

text \<open>
  Two trips whose \<open>passenger_count\<close> is an object column: the string \<open>2\<close> and a
  missing cell. Both fares are positive and the table has the four raw columns in the
  order of \<open>raw_features\<close>, so that the first line of \<open>prep_df\<close> copies it as it is.
  \<open>parse_count\<close> converts the one string that occurs, as Python's \<open>float\<close> does.
  \<open>counted_df\<close> is \<open>df\<close> after the column assignments, \<open>counted_sel\<close> the seven columns
  selected from it and \<open>counted_out\<close> the table returned.
\<close>

definition parse_count :: "string \<Rightarrow> float option" where
  "parse_count s = (if s = ''2'' then Some (Fin 2) else None)"

definition counted :: dataframe where
  "counted =
     \<lparr>index = [0, 1],
      columns =
        [(''tpep_pickup_datetime'', Datetime64
            [Some \<lparr>year = 2019, month = 1, day = 7, hour = 13, minute = 45, second = 0\<rparr>,
             Some \<lparr>year = 2019, month = 1, day = 8, hour = 9, minute = 5, second = 30\<rparr>]),
         (''passenger_count'', Object [Some ''2'', None]),
         (''tip_amount'', Float64 [Fin 2, Fin 1]),
         (''fare_amount'', Float64 [Fin 10, Fin 5])]\<rparr>"

definition counted_df :: dataframe where
  "counted_df =
     \<lparr>index = [0, 1],
      columns =
        [(''tpep_pickup_datetime'', Datetime64
            [Some \<lparr>year = 2019, month = 1, day = 7, hour = 13, minute = 45, second = 0\<rparr>,
             Some \<lparr>year = 2019, month = 1, day = 8, hour = 9, minute = 5, second = 30\<rparr>]),
         (''passenger_count'', Object [Some ''2'', None]),
         (''tip_amount'', Float64 [Fin 2, Fin 1]),
         (''fare_amount'', Float64 [Fin 10, Fin 5]),
         (''tip_fraction'', Float64 [Fin (1 / 5), Fin (1 / 5)]),
         (''pickup_weekday'', Float64 [Fin 0, Fin 1]),
         (''pickup_weekofyear'', Float64 [Fin 2, Fin 2]),
         (''pickup_hour'', Float64 [Fin 13, Fin 9]),
         (''pickup_week_hour'', Float64 [Fin 13, Fin 33]),
         (''pickup_minute'', Float64 [Fin 45, Fin 5])]\<rparr>"

definition counted_sel :: dataframe where
  "counted_sel =
     \<lparr>index = [0, 1],
      columns =
        [(''pickup_weekday'', Float64 [Fin 0, Fin 1]),
         (''pickup_weekofyear'', Float64 [Fin 2, Fin 2]),
         (''pickup_hour'', Float64 [Fin 13, Fin 9]),
         (''pickup_week_hour'', Float64 [Fin 13, Fin 33]),
         (''pickup_minute'', Float64 [Fin 45, Fin 5]),
         (''passenger_count'', Object [Some ''2'', None]),
         (''tip_fraction'', Float64 [Fin (1 / 5), Fin (1 / 5)])]\<rparr>"

definition counted_out :: dataframe where
  "counted_out =
     \<lparr>index = [0, 1],
      columns =
        [(''pickup_weekday'', Float64 [Fin 0, Fin 1]),
         (''pickup_weekofyear'', Float64 [Fin 2, Fin 2]),
         (''pickup_hour'', Float64 [Fin 13, Fin 9]),
         (''pickup_week_hour'', Float64 [Fin 13, Fin 33]),
         (''pickup_minute'', Float64 [Fin 45, Fin 5]),
         (''passenger_count'', Float64 [Fin 2, Fin (- 1)]),
         (''tip_fraction'', Float64 [Fin (1 / 5), Fin (1 / 5)])]\<rparr>"

section \<open>Lemmas\<close>

lemma bind_Inl [simp]: "bind (Inl e) f = Inl e"
  by (simp add: bind_def)

lemma bind_Inr [simp]: "bind (Inr x) f = f x"
  by (simp add: bind_def)

lemma attr_upd: "d < length st \<Longrightarrow> attr (st[d := x]) d n = getattr x n"
  by (simp add: attr_def fetch_def)

lemma attr_val: "d < length st \<Longrightarrow> attr st d n = getattr (st ! d) n"
  by (simp add: attr_def fetch_def)

lemma store_setitem_upd:
  "d < length st \<Longrightarrow> store_setitem (st[d := x]) d n s = Inr (st[d := setitem x n s])"
  by (simp add: store_setitem_def fetch_def)

lemma store_setitem_val:
  "d < length st \<Longrightarrow> store_setitem st d n s = Inr (st[d := setitem (st ! d) n s])"
  by (simp add: store_setitem_def fetch_def)

lemma bind_bind: "bind (bind m f) g = bind m (\<lambda>x. bind (f x) g)"
  by (cases m) auto

lemma store_setitem_upd_eta:
  "d < length st \<Longrightarrow> store_setitem (st[d := x]) d n = (\<lambda>s. Inr (st[d := setitem x n s]))"
  by (rule ext) (simp add: store_setitem_def fetch_def)

lemma prep_assign_val:
  "d < length st \<Longrightarrow>
   prep_assign st d = bind (assign_val (st ! d)) (\<lambda>x. Inr (st[d := x]))"
  unfolding prep_assign_def assign_val_def
  by (simp add: attr_val attr_upd store_setitem_val store_setitem_upd store_setitem_upd_eta bind_bind)

lemma prep_filter_val:
  "r < length st \<Longrightarrow>
   prep_filter st r =
     bind (getattr (st ! r) ''fare_amount'') (\<lambda>fare.
     bind (series_gt fare (Fin 0)) (\<lambda>msk.
     bind (getitem_cols (getitem_mask (st ! r) msk) raw_features) (\<lambda>t2.
     Inr (st @ [getitem_mask (st ! r) msk, t2, t2], length st + 2))))"
  unfolding prep_filter_def
  by (simp add: attr_val fetch_def alloc_def nth_append bind_bind)

lemma prep_select_val:
  "d < length st \<Longrightarrow>
   prep_select pf st d =
     bind (getitem_cols (st ! d) (features @ [label])) (\<lambda>d1.
     bind (astype_float pf d1) (\<lambda>d3.
     Inr (st @ [d1, d3, fillna (Fin (- 1)) d3], length st + 2)))"
  unfolding prep_select_def
  by (simp add: fetch_def alloc_def nth_append bind_bind)

lemma prep_df_val:
  "r < length st \<Longrightarrow>
   prep_df pf st r = bind (prep_val pf (st ! r)) (\<lambda>news. Inr (st @ news, length st + 5))"
  unfolding prep_df_def prep_val_def
  by (simp add: prep_filter_val prep_assign_val prep_select_val bind_bind nth_append
        list_update_append eval_nat_numeral)

lemma prep_df_dangling: "\<not> r < length st \<Longrightarrow> prep_df pf st r = Inl NameError"
  unfolding prep_df_def prep_filter_def attr_def fetch_def by simp

lemma getitem_cols_raw:
  assumes "getitem_cols d raw_features = Inr t2"
  shows "\<exists>a b c e. column d ''tpep_pickup_datetime'' = Some a \<and> column d ''passenger_count'' = Some b
           \<and> column d ''tip_amount'' = Some c \<and> column d ''fare_amount'' = Some e
           \<and> t2 = \<lparr>index = index d,
                    columns = [(''tpep_pickup_datetime'', a), (''passenger_count'', b),
                               (''tip_amount'', c), (''fare_amount'', e)]\<rparr>"
  using assms
  by (auto simp: getitem_cols_def raw_features_def column_def split: option.splits)

lemma dt_Inr: "dt f a = Inr s \<Longrightarrow> \<exists>ds. a = Datetime64 ds \<and> s = Float64 (map (dt_cell f) ds)"
  by (cases a) auto

lemma numeric_Float64 [simp]: "numeric (Float64 xs) = Inr xs"
  by simp

lemma bind_eq_Inr: "bind m f = Inr y \<longleftrightarrow> (\<exists>x. m = Inr x \<and> f x = Inr y)"
  by (cases m) auto

lemma assign_val_raw:
  assumes "assign_val \<lparr>index = ix,
                    columns = [(''tpep_pickup_datetime'', a), (''passenger_count'', b),
                               (''tip_amount'', c), (''fare_amount'', e)]\<rparr> = Inr t3"
  shows "\<exists>ds xs ys. a = Datetime64 ds \<and> numeric c = Inr xs \<and> numeric e = Inr ys \<and>
           t3 = \<lparr>index = ix,
                  columns = [(''tpep_pickup_datetime'', a), (''passenger_count'', b),
                             (''tip_amount'', c), (''fare_amount'', e),
                             (''tip_fraction'', Float64 (map (\<lambda>(x, y). float_div x y) (zip xs ys))),
                             (''pickup_weekday'', Float64 (map (dt_cell weekday) ds)),
                             (''pickup_weekofyear'', Float64 (map (dt_cell weekofyear) ds)),
                             (''pickup_hour'', Float64 (map (dt_cell hour) ds)),
                             (''pickup_week_hour'', Float64 (map (\<lambda>d. float_add (float_mul (dt_cell weekday d) (Fin 24)) (dt_cell hour d)) ds)),
                             (''pickup_minute'', Float64 (map (dt_cell minute) ds))]\<rparr>"
proof -
  from assms obtain xs ys where n: "numeric c = Inr xs" "numeric e = Inr ys"
    by (auto simp: assign_val_def getattr_def series_div_def bind_eq_Inr)
  from assms n obtain ds where a: "a = Datetime64 ds"
    by (auto simp: assign_val_def getattr_def series_div_def setitem_def label_def bind_eq_Inr
             dest!: dt_Inr)
  from assms show ?thesis unfolding a
    by (simp add: n assign_val_def getattr_def series_div_def series_mul_def series_add_def
          setitem_def label_def zip_map_map zip_same_conv_map comp_def)
qed

lemma column_getitem_mask:
  "column (getitem_mask t m) n = map_option (series_select m) (column t n)"
  by (simp add: column_def getitem_mask_def map_of_map split_def comp_def)
     (simp add: map_of_map[unfolded split_def comp_def] flip: split_def)

lemma series_astype_float_Inr:
  "series_astype_float pf b = Inr s \<Longrightarrow> \<exists>pcs. s = Float64 pcs"
  by (cases b) (auto simp: bind_eq_Inr)

lemma prep_val_Inr:
  assumes "prep_val pf t = Inr news"
  shows "\<exists>e fs c xs ys ds b pcs.
           column t ''fare_amount'' = Some e \<and> numeric e = Inr fs \<and>
           column t ''tip_amount'' = Some c \<and>
           numeric (series_select (map (\<lambda>x. float_gt x (Fin 0)) fs) c) = Inr xs \<and>
           numeric (series_select (map (\<lambda>x. float_gt x (Fin 0)) fs) e) = Inr ys \<and>
           column t ''tpep_pickup_datetime'' = Some (Datetime64 ds) \<and>
           column t ''passenger_count'' = Some b \<and>
           series_astype_float pf (series_select (map (\<lambda>x. float_gt x (Fin 0)) fs) b) = Inr (Float64 pcs) \<and>
           length news = 6 \<and>
           news ! 0 = getitem_mask t (map (\<lambda>x. float_gt x (Fin 0)) fs) \<and>
           news ! 5 = out_frame (select (map (\<lambda>x. float_gt x (Fin 0)) fs) (index t))
                        (select (map (\<lambda>x. float_gt x (Fin 0)) fs) ds) pcs xs ys"
proof -
  from assms obtain e fs where e: "column t ''fare_amount'' = Some e" "numeric e = Inr fs"
    by (auto simp: prep_val_def getattr_def column_def series_gt_def bind_eq_Inr split: option.splits)
  define m where "m = map (\<lambda>x. float_gt x (Fin 0)) fs"
  from assms e obtain t2 t3 d1 d3 where
    s: "getitem_cols (getitem_mask t m) raw_features = Inr t2" "assign_val t2 = Inr t3"
       "getitem_cols t3 (features @ [label]) = Inr d1" "astype_float pf d1 = Inr d3"
       "news = [getitem_mask t m, t2, t3, d1, d3, fillna (Fin (- 1)) d3]"
    by (auto simp: prep_val_def getattr_def column_def series_gt_def bind_eq_Inr m_def)
  from getitem_cols_raw[OF s(1)] obtain a' b' c' e' where
    r: "column (getitem_mask t m) ''tpep_pickup_datetime'' = Some a'"
       "column (getitem_mask t m) ''passenger_count'' = Some b'"
       "column (getitem_mask t m) ''tip_amount'' = Some c'"
       "column (getitem_mask t m) ''fare_amount'' = Some e'"
       "t2 = \<lparr>index = index (getitem_mask t m),
                    columns = [(''tpep_pickup_datetime'', a'), (''passenger_count'', b'),
                               (''tip_amount'', c'), (''fare_amount'', e')]\<rparr>"
    by blast
  from r(1-4) e(1) obtain a b c where
    cs: "column t ''tpep_pickup_datetime'' = Some a" "a' = series_select m a"
        "column t ''passenger_count'' = Some b" "b' = series_select m b"
        "column t ''tip_amount'' = Some c" "c' = series_select m c"
        "e' = series_select m e"
    by (auto simp: column_getitem_mask)
  from assign_val_raw[OF s(2)[unfolded r(5)]] obtain ds' xs ys where
    av: "a' = Datetime64 ds'" "numeric c' = Inr xs" "numeric e' = Inr ys"
      "t3 = \<lparr>index = index (getitem_mask t m),
                  columns = [(''tpep_pickup_datetime'', a'), (''passenger_count'', b'),
                             (''tip_amount'', c'), (''fare_amount'', e'),
                             (''tip_fraction'', Float64 (map (\<lambda>(x, y). float_div x y) (zip xs ys))),
                             (''pickup_weekday'', Float64 (map (dt_cell weekday) ds')),
                             (''pickup_weekofyear'', Float64 (map (dt_cell weekofyear) ds')),
                             (''pickup_hour'', Float64 (map (dt_cell hour) ds')),
                             (''pickup_week_hour'', Float64 (map (\<lambda>d. float_add (float_mul (dt_cell weekday d) (Fin 24)) (dt_cell hour d)) ds')),
                             (''pickup_minute'', Float64 (map (dt_cell minute) ds'))]\<rparr>"
    by blast
  from av(1) cs(2) obtain ds where ds: "a = Datetime64 ds" "ds' = select m ds"
    by (cases a) auto
  from s(3) have d1: "d1 = \<lparr>index = index (getitem_mask t m),
                  columns = [(''pickup_weekday'', Float64 (map (dt_cell weekday) ds')),
                             (''pickup_weekofyear'', Float64 (map (dt_cell weekofyear) ds')),
                             (''pickup_hour'', Float64 (map (dt_cell hour) ds')),
                             (''pickup_week_hour'', Float64 (map (\<lambda>d. float_add (float_mul (dt_cell weekday d) (Fin 24)) (dt_cell hour d)) ds')),
                             (''pickup_minute'', Float64 (map (dt_cell minute) ds')),
                             (''passenger_count'', b'),
                             (''tip_fraction'', Float64 (map (\<lambda>(x, y). float_div x y) (zip xs ys)))]\<rparr>"
    unfolding av(4) by (simp add: getitem_cols_def features_def label_def)
  from s(4) obtain pcs where pcs: "series_astype_float pf b' = Inr (Float64 pcs)"
    unfolding d1 by (auto simp: astype_float_def bind_eq_Inr dest: series_astype_float_Inr)
  from s(4) pcs have d3: "fillna (Fin (- 1)) d3 = out_frame (index (getitem_mask t m)) ds' pcs xs ys"
    unfolding d1 by (auto simp: astype_float_def fillna_def out_frame_def comp_def split_def)
  show ?thesis
    using e cs av(2,3) ds pcs d3 s(5)
    by (auto simp: m_def getitem_mask_def)
qed

lemma select_Nil [simp]: "select [] xs = []" "select m [] = []"
  by (simp_all add: select_def)

lemma select_Cons [simp]:
  "select (b # m) (x # xs) = (if b then x # select m xs else select m xs)"
  by (simp add: select_def)

lemma select_map_same: "select (map P xs) xs = filter P xs"
  by (induction xs) simp_all

lemma select_none: "select (map (\<lambda>_. False) xs) ys = []"
proof (induction xs arbitrary: ys)
  case Nil then show ?case by simp
next
  case (Cons x xs) then show ?case by (cases ys) simp_all
qed

lemma kept_Nil [simp]: "kept [] = []"
  by (simp add: kept_def)

lemma kept_Cons:
  "kept (f # fs) = (if float_gt f (Fin 0) then 0 # map Suc (kept fs) else map Suc (kept fs))"
proof -
  have "[0..<length (f # fs)] = 0 # map Suc [0..<length fs]"
    by (simp add: upt_conv_Cons map_Suc_upt del: upt_Suc)
  then show ?thesis
    by (simp add: kept_def filter_map comp_def del: upt_Suc)
qed

lemma select_kept:
  "length xs = length fs \<Longrightarrow>
   select (map (\<lambda>x. float_gt x (Fin 0)) fs) xs = map (\<lambda>i. xs ! i) (kept fs)"
proof (induction xs fs rule: list_induct2)
  case Nil then show ?case by simp
next
  case (Cons x xs f fs) then show ?case by (simp add: kept_Cons comp_def)
qed

lemma kept_bound: "i \<in> set (kept fs) \<Longrightarrow> i < length fs"
  by (simp add: kept_def)

lemma kept_iff: "i \<in> set (kept fs) \<longleftrightarrow> i < length fs \<and> float_gt (fs ! i) (Fin 0)"
  by (auto simp: kept_def)

lemma distinct_kept: "distinct (kept fs)"
  by (simp add: kept_def)

lemma wf_column_len:
  "wf_frame t \<Longrightarrow> column t n = Some s \<Longrightarrow> series_len s = length (index t)"
  by (auto simp: wf_frame_def column_def list_all_iff dest!: map_of_SomeD)

lemma prep_df_out_val:
  assumes "prep_df_out pf st r = Inr out"
  shows "r < length st \<and> (\<exists>news. prep_val pf (st ! r) = Inr news \<and> length news = 6 \<and> out = news ! 5)"
proof -
  have r: "r < length st"
    using assms by (cases "r < length st") (simp_all add: prep_df_out_def prep_df_dangling)
  from assms obtain news where n: "prep_val pf (st ! r) = Inr news"
    by (auto simp: prep_df_out_def prep_df_val[OF r] bind_eq_Inr)
  from prep_val_Inr[OF n] have l: "length news = 6" by blast
  from assms have "out = news ! 5"
    by (simp add: prep_df_out_def prep_df_val[OF r] n fetch_def l nth_append)
  with r n l show ?thesis by blast
qed

lemma prep_out_kept:
  assumes out: "prep_df_out pf st r = Inr out"
    and wf: "wf_frame (st ! r)"
    and fare: "column (st ! r) ''fare_amount'' = Some (Float64 fs)"
  shows "\<exists>ds b pcs c xs.
           column (st ! r) ''tpep_pickup_datetime'' = Some (Datetime64 ds) \<and>
           length ds = length fs \<and> length (index (st ! r)) = length fs \<and>
           column (st ! r) ''passenger_count'' = Some b \<and>
           series_astype_float pf (series_select (map (\<lambda>x. float_gt x (Fin 0)) fs) b) = Inr (Float64 pcs) \<and>
           column (st ! r) ''tip_amount'' = Some c \<and>
           numeric (series_select (map (\<lambda>x. float_gt x (Fin 0)) fs) c) = Inr xs \<and>
           out = out_frame (map (\<lambda>i. index (st ! r) ! i) (kept fs)) (map (\<lambda>i. ds ! i) (kept fs)) pcs
                   xs (map (\<lambda>i. fs ! i) (kept fs))"
proof -
  from prep_df_out_val[OF out] obtain news where
    n: "prep_val pf (st ! r) = Inr news" "out = news ! 5" by blast
  from prep_val_Inr[OF n(1)] fare obtain ds b pcs c xs where
    c: "column (st ! r) ''tpep_pickup_datetime'' = Some (Datetime64 ds)"
       "column (st ! r) ''passenger_count'' = Some b"
       "series_astype_float pf (series_select (map (\<lambda>x. float_gt x (Fin 0)) fs) b) = Inr (Float64 pcs)"
       "column (st ! r) ''tip_amount'' = Some c"
       "numeric (series_select (map (\<lambda>x. float_gt x (Fin 0)) fs) c) = Inr xs"
       "news ! 5 = out_frame (select (map (\<lambda>x. float_gt x (Fin 0)) fs) (index (st ! r)))
                        (select (map (\<lambda>x. float_gt x (Fin 0)) fs) ds) pcs xs
                        (select (map (\<lambda>x. float_gt x (Fin 0)) fs) fs)"
    by auto
  have l: "length (index (st ! r)) = length fs" "length ds = length fs"
    using wf_column_len[OF wf fare] wf_column_len[OF wf c(1)]
    by simp_all
  show ?thesis
    using c l n(2) by (simp add: select_kept)
qed

lemma trips_store_run: "prep_df no_parse [trips] 0 = Inr (trips_store, 6)"
  by code_simp

lemma trips_run: "prep_df_out no_parse [trips] 0 = Inr trips_out"
  by (simp add: prep_df_out_def trips_store_run fetch_def trips_store_def)

lemma fill_not_NaN: "fill (Fin (- 1)) x \<noteq> NaN"
  by (simp add: fill_def)

lemma prep_out_frame:
  assumes "prep_df_out pf st r = Inr out"
  shows "\<exists>ix ds pcs xs ys. out = out_frame ix ds pcs xs ys"
proof -
  from prep_df_out_val[OF assms] obtain news where
    n: "prep_val pf (st ! r) = Inr news" "out = news ! 5" by blast
  from prep_val_Inr[OF n(1)] n(2) show ?thesis by metis
qed

lemma column_out_frame:
  "column (out_frame ix ds pcs xs ys) ''pickup_weekday'' =
     Some (Float64 (map (\<lambda>d. fill (Fin (- 1)) (dt_cell weekday d)) ds))"
  "column (out_frame ix ds pcs xs ys) ''pickup_weekofyear'' =
     Some (Float64 (map (\<lambda>d. fill (Fin (- 1)) (dt_cell weekofyear d)) ds))"
  "column (out_frame ix ds pcs xs ys) ''pickup_hour'' =
     Some (Float64 (map (\<lambda>d. fill (Fin (- 1)) (dt_cell hour d)) ds))"
  "column (out_frame ix ds pcs xs ys) ''pickup_week_hour'' =
     Some (Float64 (map (\<lambda>d. fill (Fin (- 1))
             (float_add (float_mul (dt_cell weekday d) (Fin 24)) (dt_cell hour d))) ds))"
  "column (out_frame ix ds pcs xs ys) ''pickup_minute'' =
     Some (Float64 (map (\<lambda>d. fill (Fin (- 1)) (dt_cell minute d)) ds))"
  "column (out_frame ix ds pcs xs ys) ''passenger_count'' = Some (Float64 (map (fill (Fin (- 1))) pcs))"
  "column (out_frame ix ds pcs xs ys) ''tip_fraction'' =
     Some (Float64 (map (\<lambda>(x, y). fill (Fin (- 1)) (float_div x y)) (zip xs ys)))"
  by (simp_all add: column_def out_frame_def)

lemma numeric_len: "numeric s = Inr xs \<Longrightarrow> length xs = series_len s"
  by (cases s) (auto split: if_splits)

lemma parse_all_len: "parse_all pf xs = Inr ys \<Longrightarrow> length ys = length xs"
proof (induction xs arbitrary: ys)
  case Nil then show ?case by simp
next
  case (Cons x xs)
  then show ?case
    by (cases x) (auto simp: bind_eq_Inr split: option.splits)
qed

lemma astype_len: "series_astype_float pf s = Inr s' \<Longrightarrow> series_len s' = series_len s"
  by (cases s) (auto simp: bind_eq_Inr dest: parse_all_len)

lemma series_select_len:
  "series_len s = length fs \<Longrightarrow>
   series_len (series_select (map (\<lambda>x. float_gt x (Fin 0)) fs) s) = length (kept fs)"
  by (cases s) (simp_all add: select_kept)

lemma count_list_distinct: "distinct xs \<Longrightarrow> count_list xs x = (if x \<in> set xs then 1 else 0)"
  by (induction xs) auto

lemma sorted_kept: "sorted_wrt (<) (kept fs)"
  by (simp add: kept_def sorted_wrt_filter)

lemma float_gt_pos: "float_gt y (Fin 0) \<Longrightarrow> y \<noteq> Fin 0"
  by (cases y) auto

lemma select_subset: "set (select m xs) \<subseteq> set xs"
  by (auto simp: select_def dest: set_zip_rightD)

lemma numeric_select_pos:
  assumes "numeric e = Inr fs"
    and "numeric (series_select (map (\<lambda>x. float_gt x (Fin 0)) fs) e) = Inr ys"
  shows "\<forall>y\<in>set ys. float_gt y (Fin 0)"
proof (cases e)
  case (Float64 xs)
  with assms show ?thesis by (auto simp: select_map_same)
next
  case (Datetime64 xs)
  with assms show ?thesis by simp
next
  case (Object xs)
  with assms(1) have fs: "fs = map (\<lambda>_. NaN) xs"
    by (auto split: if_splits)
  have "map (\<lambda>x. float_gt x (Fin 0)) fs = map (\<lambda>_. False) xs"
    by (simp add: fs)
  with assms(2) Object show ?thesis
    by (simp add: select_none)
qed

lemma numeric_select_ok:
  assumes "numeric e = Inr fs"
  shows "\<exists>ys. numeric (series_select m e) = Inr ys"
proof (cases e)
  case (Object xs)
  with assms have "\<forall>x\<in>set xs. x = None"
    by (auto simp: list_all_iff split: if_splits)
  with select_subset[of m xs] have "\<forall>x\<in>set (select m xs). x = None"
    by blast
  with Object show ?thesis by (simp add: list_all_iff)
qed (use assms in simp_all)

lemma wf_trips: "wf_frame trips"
  by (simp add: wf_frame_def trips_def)

lemma kept_trips: "kept [Fin 10, Fin 0, Fin 8] = [0, 2]"
  by code_simp

lemma column_trips:
  "column trips ''fare_amount'' = Some (Float64 [Fin 10, Fin 0, Fin 8])"
  "column trips ''tip_amount'' = Some (Float64 [Fin 2, Fin 1, NaN])"
  "column trips ''passenger_count'' = Some (Float64 [Fin 1, Fin 2, NaN])"
  by (simp_all add: column_def trips_def)

lemma column_trips_out:
  "column trips_out ''pickup_weekday'' = Some (Float64 [Fin 0, Fin (- 1)])"
  "column trips_out ''pickup_hour'' = Some (Float64 [Fin 13, Fin (- 1)])"
  "column trips_out ''pickup_week_hour'' = Some (Float64 [Fin 13, Fin (- 1)])"
  "column trips_out ''tip_fraction'' = Some (Float64 [Fin (1 / 5), Fin (- 1)])"
  by (simp_all add: column_def trips_out_def)

lemma trips_filter_run:
  "prep_filter [trips] 0 = Inr ([trips, trips_store ! 1, trips_store ! 2, trips_store ! 2], 3)"
  by code_simp

lemma map_of_getitem_mask:
  "map_of (columns (getitem_mask t m)) n = map_option (series_select m) (map_of (columns t) n)"
  using column_getitem_mask[of t m n] by (simp add: column_def)

lemma prep_val_ok:
  assumes fare: "column t ''fare_amount'' = Some (Float64 fs)"
    and tip: "column t ''tip_amount'' = Some (Float64 ts)"
    and pc: "column t ''passenger_count'' = Some (Float64 ps)"
    and pick: "column t ''tpep_pickup_datetime'' = Some (Datetime64 ds)"
  shows "\<exists>news. prep_val pf t = Inr news"
proof -
  let ?m = "map (\<lambda>x. float_gt x (Fin 0)) fs"
  have g: "getitem_cols (getitem_mask t ?m) raw_features =
             Inr \<lparr>index = index (getitem_mask t ?m),
                  columns = [(''tpep_pickup_datetime'', Datetime64 (select ?m ds)),
                             (''passenger_count'', Float64 (select ?m ps)),
                             (''tip_amount'', Float64 (select ?m ts)),
                             (''fare_amount'', Float64 (select ?m fs))]\<rparr>"
    using assms
    by (simp add: getitem_cols_def raw_features_def map_of_getitem_mask column_def)
  have f: "getattr t ''fare_amount'' = Inr (Float64 fs)"
    using fare by (simp add: getattr_def column_def)
  have "prep_val pf t =
          bind (assign_val \<lparr>index = index (getitem_mask t ?m),
                  columns = [(''tpep_pickup_datetime'', Datetime64 (select ?m ds)),
                             (''passenger_count'', Float64 (select ?m ps)),
                             (''tip_amount'', Float64 (select ?m ts)),
                             (''fare_amount'', Float64 (select ?m fs))]\<rparr>) (\<lambda>t3.
          bind (getitem_cols t3 (features @ [label])) (\<lambda>d1.
          bind (astype_float pf d1) (\<lambda>d3.
          Inr [getitem_mask t ?m,
               \<lparr>index = index (getitem_mask t ?m),
                  columns = [(''tpep_pickup_datetime'', Datetime64 (select ?m ds)),
                             (''passenger_count'', Float64 (select ?m ps)),
                             (''tip_amount'', Float64 (select ?m ts)),
                             (''fare_amount'', Float64 (select ?m fs))]\<rparr>,
               t3, d1, d3, fillna (Fin (- 1)) d3])))"
    by (simp add: prep_val_def f series_gt_def g)
  then show ?thesis
    by (simp add: assign_val_def getattr_def series_div_def series_mul_def series_add_def
          setitem_def label_def getitem_cols_def features_def astype_float_def)
qed

lemma prep_df_out_ok:
  assumes "r < length st"
    and "column (st ! r) ''fare_amount'' = Some (Float64 fs)"
    and "column (st ! r) ''tip_amount'' = Some (Float64 ts)"
    and "column (st ! r) ''passenger_count'' = Some (Float64 ps)"
    and "column (st ! r) ''tpep_pickup_datetime'' = Some (Datetime64 ds)"
  shows "\<exists>out. prep_df_out pf st r = Inr out"
proof -
  from prep_val_ok[OF assms(2-5)] obtain news where n: "prep_val pf (st ! r) = Inr news"
    by blast
  from prep_val_Inr[OF n] have "length news = 6" by blast
  then show ?thesis
    by (simp add: prep_df_out_def prep_df_val[OF assms(1)] n fetch_def)
qed

lemma rows_of_out:
  assumes "prep_df_out pf st r = Inr out"
    and "wf_frame (st ! r)"
    and "column (st ! r) ''fare_amount'' = Some (Float64 fs)"
  shows "index out = map (\<lambda>i. index (st ! r) ! i) (kept fs) \<and>
         wf_frame out \<and>
         (distinct (index (st ! r)) \<longrightarrow>
            (\<forall>i<length fs. count_list (index out) (index (st ! r) ! i) =
                              (if float_gt (fs ! i) (Fin 0) then 1 else 0)))"
proof -
  let ?m = "map (\<lambda>x. float_gt x (Fin 0)) fs"
  let ?ix = "index (st ! r)"
  from prep_out_kept[OF assms] obtain ds b pcs c xs where
    k: "length ds = length fs" "length ?ix = length fs"
       "column (st ! r) ''passenger_count'' = Some b"
       "series_astype_float pf (series_select ?m b) = Inr (Float64 pcs)"
       "column (st ! r) ''tip_amount'' = Some c"
       "numeric (series_select ?m c) = Inr xs"
       "out = out_frame (map (\<lambda>i. ?ix ! i) (kept fs)) (map (\<lambda>i. ds ! i) (kept fs)) pcs
                xs (map (\<lambda>i. fs ! i) (kept fs))"
    by blast
  have lb: "series_len b = length fs" and lc: "series_len c = length fs"
    using wf_column_len[OF assms(2) k(3)] wf_column_len[OF assms(2) k(5)] k(2) by simp_all
  have lp: "length pcs = length (kept fs)"
    using astype_len[OF k(4)] series_select_len[OF lb] by simp
  have lx: "length xs = length (kept fs)"
    using numeric_len[OF k(6)] series_select_len[OF lc] by simp
  have ix: "index out = map (\<lambda>i. ?ix ! i) (kept fs)"
    by (simp add: k(7) out_frame_def)
  have wf: "wf_frame out"
    by (simp add: k(7) out_frame_def wf_frame_def lp lx)
  have cnt: "count_list (index out) (?ix ! i) = (if float_gt (fs ! i) (Fin 0) then 1 else 0)"
    if d: "distinct ?ix" and i: "i < length fs" for i
  proof -
    have inj: "inj_on (\<lambda>i. ?ix ! i) (set (kept fs))"
      using d k(2) by (auto simp: inj_on_def nth_eq_iff_index_eq dest!: kept_bound)
    have dist: "distinct (index out)"
      unfolding ix by (simp add: distinct_map distinct_kept inj)
    have "?ix ! i \<in> set (index out) \<longleftrightarrow> i \<in> set (kept fs)"
    proof
      assume "?ix ! i \<in> set (index out)"
      then obtain j where j: "j \<in> set (kept fs)" "?ix ! i = ?ix ! j"
        unfolding ix by auto
      from j(1) have "j < length ?ix"
        using k(2) by (simp add: kept_bound)
      with j(2) d i k(2) have "i = j"
        by (simp add: nth_eq_iff_index_eq)
      with j(1) show "i \<in> set (kept fs)" by simp
    next
      assume "i \<in> set (kept fs)"
      then show "?ix ! i \<in> set (index out)"
        unfolding ix by auto
    qed
    then show ?thesis
      using i by (simp add: count_list_distinct[OF dist] kept_iff)
  qed
  from ix wf cnt show ?thesis by blast
qed

lemma frame_of_out:
  assumes "prep_df_out pf st r = Inr out"
    and "wf_frame (st ! r)"
    and "column (st ! r) ''fare_amount'' = Some (Float64 fs)"
    and "column (st ! r) ''tip_amount'' = Some (Float64 ts)"
    and "column (st ! r) ''passenger_count'' = Some (Float64 ps)"
  shows "\<exists>ds. column (st ! r) ''tpep_pickup_datetime'' = Some (Datetime64 ds) \<and>
           sorted_wrt (<) (kept fs) \<and>
           set (kept fs) = {i. i < length fs \<and> float_gt (fs ! i) (Fin 0)} \<and>
           out =
             \<lparr>index = map (\<lambda>i. index (st ! r) ! i) (kept fs),
              columns =
                [(''pickup_weekday'',
                    Float64 (map (\<lambda>i. fill (Fin (- 1)) (dt_cell weekday (ds ! i))) (kept fs))),
                 (''pickup_weekofyear'',
                    Float64 (map (\<lambda>i. fill (Fin (- 1)) (dt_cell weekofyear (ds ! i))) (kept fs))),
                 (''pickup_hour'',
                    Float64 (map (\<lambda>i. fill (Fin (- 1)) (dt_cell hour (ds ! i))) (kept fs))),
                 (''pickup_week_hour'',
                    Float64 (map (\<lambda>i. fill (Fin (- 1))
                       (float_add (float_mul (dt_cell weekday (ds ! i)) (Fin 24))
                          (dt_cell hour (ds ! i)))) (kept fs))),
                 (''pickup_minute'',
                    Float64 (map (\<lambda>i. fill (Fin (- 1)) (dt_cell minute (ds ! i))) (kept fs))),
                 (''passenger_count'',
                    Float64 (map (\<lambda>i. fill (Fin (- 1)) (ps ! i)) (kept fs))),
                 (''tip_fraction'',
                    Float64 (map (\<lambda>i. fill (Fin (- 1)) (float_div (ts ! i) (fs ! i))) (kept fs)))]\<rparr>"
proof -
  have lt: "length ts = length fs" and lp: "length ps = length fs"
    using wf_column_len[OF assms(2,3)] wf_column_len[OF assms(2,4)] wf_column_len[OF assms(2,5)]
    by simp_all
  from prep_out_kept[OF assms(1-3)] assms(4,5) obtain ds where
    d: "column (st ! r) ''tpep_pickup_datetime'' = Some (Datetime64 ds)"
    and o: "out = out_frame (map (\<lambda>i. index (st ! r) ! i) (kept fs)) (map (\<lambda>i. ds ! i) (kept fs))
                   (map (\<lambda>i. ps ! i) (kept fs)) (map (\<lambda>i. ts ! i) (kept fs))
                   (map (\<lambda>i. fs ! i) (kept fs))"
    by (auto simp: select_kept lt lp)
  have s: "set (kept fs) = {i. i < length fs \<and> float_gt (fs ! i) (Fin 0)}"
    by (auto simp: kept_iff)
  show ?thesis
    using d s sorted_kept[of fs]
    by (simp add: o out_frame_def comp_def zip_map_map zip_same_conv_map)
qed

lemma column_trips_pickup:
  "column trips ''tpep_pickup_datetime'' = Some (Datetime64
     [Some \<lparr>year = 2019, month = 1, day = 7, hour = 13, minute = 45, second = 0\<rparr>,
      Some \<lparr>year = 2019, month = 1, day = 8, hour = 9, minute = 5, second = 30\<rparr>,
      None])"
  by (simp add: column_def trips_def)

lemma counted_run: "prep_df_out parse_count [counted] 0 = Inr counted_out"
  by code_simp

lemma counted_filter_run:
  "prep_filter [counted] 0 = Inr ([counted, counted, counted, counted], 3)"
  by code_simp

lemma counted_assign_run:
  "prep_assign [counted, counted, counted, counted] 3 = Inr [counted, counted, counted, counted_df]"
  by code_simp

lemma counted_sel_run: "getitem_cols counted_df (features @ [label]) = Inr counted_sel"
  by code_simp

lemma trips_assign_run:
  "prep_assign [trips, trips_store ! 1, trips_store ! 2, trips_store ! 2] 3 =
     Inr [trips, trips_store ! 1, trips_store ! 2, trips_store ! 3]"
  by code_simp

lemma trips_sel_run: "getitem_cols (trips_store ! 3) (features @ [label]) = Inr (trips_store ! 4)"
  by code_simp

lemma wf_counted: "wf_frame counted"
  by (simp add: wf_frame_def counted_def)

lemma parse_all_map:
  "parse_all pf xs = Inr ys \<Longrightarrow>
   ys = map (\<lambda>x. case x of None \<Rightarrow> NaN | Some s \<Rightarrow> the (pf s)) xs \<and>
   (\<forall>s. Some s \<in> set xs \<longrightarrow> pf s \<noteq> None)"
proof (induction xs arbitrary: ys)
  case Nil
  then show ?case by simp
next
  case (Cons x xs)
  show ?case
  proof (cases x)
    case None
    with Cons.prems obtain zs where z: "parse_all pf xs = Inr zs" "ys = NaN # zs"
      by (auto simp: bind_eq_Inr)
    from Cons.IH[OF z(1)] z(2) None show ?thesis
      by simp
  next
    case (Some s)
    with Cons.prems obtain v zs where
      z: "pf s = Some v" "parse_all pf xs = Inr zs" "ys = v # zs"
      by (auto simp: bind_eq_Inr split: option.splits)
    from Cons.IH[OF z(2)] z(1,3) Some show ?thesis
      by auto
  qed
qed

lemma parse_all_nth:
  assumes "parse_all pf xs = Inr ys"
  shows "length ys = length xs \<and>
         (\<forall>i<length xs. case xs ! i of None \<Rightarrow> ys ! i = NaN | Some s \<Rightarrow> pf s = Some (ys ! i))"
proof -
  from parse_all_map[OF assms] have
    m: "ys = map (\<lambda>x. case x of None \<Rightarrow> NaN | Some s \<Rightarrow> the (pf s)) xs"
    and d: "\<And>s. Some s \<in> set xs \<Longrightarrow> pf s \<noteq> None"
    by blast+
  have "case xs ! i of None \<Rightarrow> ys ! i = NaN | Some s \<Rightarrow> pf s = Some (ys ! i)"
    if i: "i < length xs" for i
  proof (cases "xs ! i")
    case None
    with i show ?thesis by (simp add: m)
  next
    case (Some s)
    with i have "Some s \<in> set xs" by (metis nth_mem)
    from d[OF this] Some i show ?thesis by (auto simp: m)
  qed
  with m show ?thesis by simp
qed

lemma astype_cols_nth:
  "astype_cols pf cs = Inr cs' \<Longrightarrow>
   length cs' = length cs \<and> map fst cs' = map fst cs \<and>
   (\<forall>k<length cs. series_astype_float pf (snd (cs ! k)) = Inr (snd (cs' ! k)))"
proof (induction cs arbitrary: cs')
  case Nil
  then show ?case by simp
next
  case (Cons c cs)
  obtain n s where c: "c = (n, s)" by (cases c)
  from Cons.prems c obtain s' rest where
    r: "series_astype_float pf s = Inr s'" "astype_cols pf cs = Inr rest" "cs' = (n, s') # rest"
    by (auto simp: bind_eq_Inr)
  from Cons.IH[OF r(2)] r(1,3) c show ?case
    by (auto simp: nth_Cons split: nat.splits)
qed

lemma series_astype_float_cases:
  assumes "series_astype_float pf s = Inr s'"
  shows "case s of
           Float64 xs \<Rightarrow> s' = Float64 xs
         | Object xs \<Rightarrow> (\<exists>ys. s' = Float64 ys \<and> length ys = length xs \<and>
               (\<forall>i<length xs. case xs ! i of None \<Rightarrow> ys ! i = NaN | Some t \<Rightarrow> pf t = Some (ys ! i)))
         | Datetime64 xs \<Rightarrow> False"
proof (cases s)
  case (Object xs)
  with assms obtain ys where y: "parse_all pf xs = Inr ys" "s' = Float64 ys"
    by (auto simp: bind_eq_Inr)
  from parse_all_nth[OF y(1)] y(2) Object show ?thesis
    by auto
qed (use assms in auto)

lemma filled_cells:
  assumes "prep_df_out pf st r = Inr out"
  shows "\<exists>st1 df st2 d sel.
           prep_filter st r = Inr (st1, df) \<and> prep_assign st1 df = Inr st2 \<and>
           fetch st2 df = Inr d \<and> getitem_cols d (features @ [label]) = Inr sel \<and>
           index out = index sel \<and> map fst (columns out) = map fst (columns sel) \<and>
           (\<forall>k<length (columns sel).
              case snd (columns sel ! k) of
                Float64 xs \<Rightarrow>
                  snd (columns out ! k) = Float64 (map (\<lambda>x. if x = NaN then Fin (- 1) else x) xs)
              | Object xs \<Rightarrow>
                  (\<exists>ys. snd (columns out ! k) = Float64 ys \<and> length ys = length xs \<and>
                     (\<forall>i<length xs.
                        case xs ! i of
                          None \<Rightarrow> ys ! i = Fin (- 1)
                        | Some s \<Rightarrow> (\<exists>v. pf s = Some v \<and> ys ! i = (if v = NaN then Fin (- 1) else v))))
              | Datetime64 xs \<Rightarrow> False)"
proof -
  from assms obtain st' r' where
    p: "prep_df pf st r = Inr (st', r')" and f: "fetch st' r' = Inr out"
    by (auto simp: prep_df_out_def bind_eq_Inr)
  from p obtain st1 df st2 where
    s: "prep_filter st r = Inr (st1, df)" "prep_assign st1 df = Inr st2"
       "prep_select pf st2 df = Inr (st', r')"
    by (auto simp: prep_df_def bind_eq_Inr)
  have l: "df < length st2"
    using s(3) by (cases "df < length st2") (simp_all add: prep_select_def fetch_def)
  from s(3) obtain sel pre where
    g: "getitem_cols (st2 ! df) (features @ [label]) = Inr sel" "astype_float pf sel = Inr pre"
       "st' = st2 @ [sel, pre, fillna (Fin (- 1)) pre]" "r' = length st2 + 2"
    by (auto simp: prep_select_val[OF l] bind_eq_Inr)
  have out: "out = fillna (Fin (- 1)) pre"
    using f by (simp add: g(3,4) fetch_def nth_append)
  from g(2) obtain cs' where
    a: "astype_cols pf (columns sel) = Inr cs'" "pre = \<lparr>index = index sel, columns = cs'\<rparr>"
    by (auto simp: astype_float_def bind_eq_Inr)
  from astype_cols_nth[OF a(1)] have
    n: "length cs' = length (columns sel)" "map fst cs' = map fst (columns sel)"
       "\<And>k. k < length (columns sel) \<Longrightarrow>
          series_astype_float pf (snd (columns sel ! k)) = Inr (snd (cs' ! k))"
    by blast+
  have co: "columns out = map (\<lambda>(n, s). (n, series_fillna (Fin (- 1)) s)) cs'"
    by (simp add: out a(2) fillna_def)
  have names: "map fst (columns out) = map fst (columns sel)"
    unfolding co using n(2) by (simp add: comp_def split_def)
  have cell: "case snd (columns sel ! k) of
                Float64 xs \<Rightarrow>
                  snd (columns out ! k) = Float64 (map (\<lambda>x. if x = NaN then Fin (- 1) else x) xs)
              | Object xs \<Rightarrow>
                  (\<exists>ys. snd (columns out ! k) = Float64 ys \<and> length ys = length xs \<and>
                     (\<forall>i<length xs.
                        case xs ! i of
                          None \<Rightarrow> ys ! i = Fin (- 1)
                        | Some s \<Rightarrow> (\<exists>v. pf s = Some v \<and> ys ! i = (if v = NaN then Fin (- 1) else v))))
              | Datetime64 xs \<Rightarrow> False"
    if k: "k < length (columns sel)" for k
  proof -
    have o: "snd (columns out ! k) = series_fillna (Fin (- 1)) (snd (cs' ! k))"
      using k n(1) by (simp add: co split_def)
    from series_astype_float_cases[OF n(3)[OF k]] show ?thesis
    proof (cases "snd (columns sel ! k)")
      case (Float64 xs)
      with series_astype_float_cases[OF n(3)[OF k]] o show ?thesis
        by (simp add: fill_def[abs_def])
    next
      case (Datetime64 xs)
      with series_astype_float_cases[OF n(3)[OF k]] show ?thesis
        by simp
    next
      case (Object xs)
      with series_astype_float_cases[OF n(3)[OF k]] obtain ys where
        y: "snd (cs' ! k) = Float64 ys" "length ys = length xs"
           "\<And>i. i < length xs \<Longrightarrow>
              (case xs ! i of None \<Rightarrow> ys ! i = NaN | Some t \<Rightarrow> pf t = Some (ys ! i))"
        by auto
      have "case xs ! i of
              None \<Rightarrow> map (fill (Fin (- 1))) ys ! i = Fin (- 1)
            | Some s \<Rightarrow> (\<exists>v. pf s = Some v \<and>
                map (fill (Fin (- 1))) ys ! i = (if v = NaN then Fin (- 1) else v))"
        if "i < length xs" for i
        using y(3)[OF that] that y(2) by (auto simp: fill_def split: option.splits)
      with Object o y(1,2) show ?thesis
        by simp
    qed
  qed
  from s(1,2) l g(1) names cell show ?thesis
    by (auto simp: fetch_def out a(2) fillna_def)
qed

section \<open>Properties of \<open>prep_df\<close>\<close>

text \<open>
  C1. The label of a row with a positive fare. Let the fare and tip columns of the
  input be float columns with cells \<open>fs\<close> and \<open>ts\<close>. The column \<open>tip_fraction\<close> of the
  table returned has one cell for each input row with \<open>fare_amount > 0\<close>, in their
  order, and the cell of such a row is its quotient \<open>tip_amount / fare_amount\<close>, except
  that it is \<open>-1\<close> where the quotient is NaN, as it is for a row whose tip is missing.
\<close>

theorem prep_df_tip_fraction:
  assumes "prep_df_out pf st r = Inr out"
    and "wf_frame (st ! r)"
    and "column (st ! r) ''fare_amount'' = Some (Float64 fs)"
    and "column (st ! r) ''tip_amount'' = Some (Float64 ts)"
  shows "\<exists>ls. column out label = Some (Float64 ls) \<and> length ls = length (kept fs) \<and>
           (\<forall>j<length (kept fs).
              ls ! j = (if float_div (ts ! (kept fs ! j)) (fs ! (kept fs ! j)) = NaN then Fin (- 1)
                        else float_div (ts ! (kept fs ! j)) (fs ! (kept fs ! j))))"
proof -
  have lt: "length ts = length fs"
    using wf_column_len[OF assms(2,3)] wf_column_len[OF assms(2,4)] by simp
  from prep_out_kept[OF assms(1-3)] assms(4) obtain ix ds pcs where
    o: "out = out_frame ix ds pcs (map (\<lambda>i. ts ! i) (kept fs)) (map (\<lambda>i. fs ! i) (kept fs))"
    by (auto simp: select_kept lt)
  show ?thesis
    unfolding o by (simp add: column_out_frame label_def fill_def)
qed

theorem prep_df_tip_fraction_witness:
  "prep_df_out no_parse [trips] 0 = Inr trips_out \<and> wf_frame ([trips] ! 0) \<and>
   column ([trips] ! 0) ''fare_amount'' = Some (Float64 [Fin 10, Fin 0, Fin 8]) \<and>
   column ([trips] ! 0) ''tip_amount'' = Some (Float64 [Fin 2, Fin 1, NaN]) \<and>
   kept [Fin 10, Fin 0, Fin 8] = [0, 2] \<and>
   (\<exists>ls. column trips_out label = Some (Float64 ls) \<and> ls ! 0 = Fin (1 / 5) \<and> ls ! 1 = Fin (- 1))"
proof -
  have h: "wf_frame ([trips] ! 0)"
    "column ([trips] ! 0) ''fare_amount'' = Some (Float64 [Fin 10, Fin 0, Fin 8])"
    "column ([trips] ! 0) ''tip_amount'' = Some (Float64 [Fin 2, Fin 1, NaN])"
    by (simp_all add: wf_trips column_trips)
  from prep_df_tip_fraction[OF trips_run h] obtain ls where
    l: "column trips_out label = Some (Float64 ls)"
       "\<forall>j<length (kept [Fin 10, Fin 0, Fin 8]).
          ls ! j = (if float_div ([Fin 2, Fin 1, NaN] ! (kept [Fin 10, Fin 0, Fin 8] ! j))
                         ([Fin 10, Fin 0, Fin 8] ! (kept [Fin 10, Fin 0, Fin 8] ! j)) = NaN
                    then Fin (- 1)
                    else float_div ([Fin 2, Fin 1, NaN] ! (kept [Fin 10, Fin 0, Fin 8] ! j))
                         ([Fin 10, Fin 0, Fin 8] ! (kept [Fin 10, Fin 0, Fin 8] ! j)))"
    by blast
  from l(2)[rule_format, of 0] have "ls ! 0 = Fin (1 / 5)"
    by (simp add: kept_trips)
  moreover from l(2)[rule_format, of 1] have "ls ! 1 = Fin (- 1)"
    by (simp add: kept_trips)
  ultimately show ?thesis
    using trips_run h kept_trips l(1) by blast
qed

text \<open>
  The label is not always the quotient. The third row of \<open>trips\<close> has fare 8 and no
  tip; it is the second row of the table returned, where its label is \<open>-1\<close>, while its
  quotient is NaN.
\<close>

theorem tip_fraction_counterexample:
  "prep_df_out no_parse [trips] 0 = Inr trips_out \<and>
   column trips ''fare_amount'' = Some (Float64 [Fin 10, Fin 0, Fin 8]) \<and>
   column trips ''tip_amount'' = Some (Float64 [Fin 2, Fin 1, NaN]) \<and>
   float_gt ([Fin 10, Fin 0, Fin 8] ! 2) (Fin 0) \<and>
   kept [Fin 10, Fin 0, Fin 8] ! 1 = 2 \<and>
   column trips_out label = Some (Float64 [Fin (1 / 5), Fin (- 1)]) \<and>
   [Fin (1 / 5), Fin (- 1)] ! 1 \<noteq> float_div ([Fin 2, Fin 1, NaN] ! 2) ([Fin 10, Fin 0, Fin 8] ! 2)"
  by (simp add: trips_run column_trips column_trips_out kept_trips label_def)

text \<open>
  C2. The rows of the table returned. Let the input have float columns \<open>fare_amount\<close>
  (with cells \<open>fs\<close>), \<open>tip_amount\<close> and \<open>passenger_count\<close> and a timestamp column
  \<open>tpep_pickup_datetime\<close>. Then \<open>prep_df\<close> returns a table. Its row labels are the
  labels of the input rows with \<open>fare_amount > 0\<close>, in their order, and every column of
  it has one cell for each of them. Where the labels of the input are distinct, a row
  with \<open>fare_amount > 0\<close> occurs exactly once in the table returned, and a row without
  (its fare is at most 0, or missing) does not occur.
\<close>

theorem prep_df_rows:
  assumes "r < length st"
    and "wf_frame (st ! r)"
    and "column (st ! r) ''fare_amount'' = Some (Float64 fs)"
    and "column (st ! r) ''tip_amount'' = Some (Float64 ts)"
    and "column (st ! r) ''passenger_count'' = Some (Float64 ps)"
    and "column (st ! r) ''tpep_pickup_datetime'' = Some (Datetime64 ds)"
  shows "\<exists>out. prep_df_out pf st r = Inr out \<and>
           index out = map (\<lambda>i. index (st ! r) ! i) (kept fs) \<and>
           wf_frame out \<and>
           (distinct (index (st ! r)) \<longrightarrow>
              (\<forall>i<length fs. count_list (index out) (index (st ! r) ! i) =
                                (if float_gt (fs ! i) (Fin 0) then 1 else 0)))"
proof -
  from prep_df_out_ok[OF assms(1,3-6)] obtain out where o: "prep_df_out pf st r = Inr out"
    by blast
  from rows_of_out[OF o assms(2,3)] o show ?thesis
    by blast
qed

theorem prep_df_rows_witness:
  "0 < length [trips] \<and> wf_frame ([trips] ! 0) \<and>
   column ([trips] ! 0) ''fare_amount'' = Some (Float64 [Fin 10, Fin 0, Fin 8]) \<and>
   column ([trips] ! 0) ''tip_amount'' = Some (Float64 [Fin 2, Fin 1, NaN]) \<and>
   column ([trips] ! 0) ''passenger_count'' = Some (Float64 [Fin 1, Fin 2, NaN]) \<and>
   column ([trips] ! 0) ''tpep_pickup_datetime'' = Some (Datetime64
     [Some \<lparr>year = 2019, month = 1, day = 7, hour = 13, minute = 45, second = 0\<rparr>,
      Some \<lparr>year = 2019, month = 1, day = 8, hour = 9, minute = 5, second = 30\<rparr>,
      None]) \<and>
   distinct (index ([trips] ! 0)) \<and>
   prep_df_out no_parse [trips] 0 = Inr trips_out \<and>
   index ([trips] ! 0) = [0, 1, 2] \<and> index trips_out = [0, 2] \<and>
   count_list [0, 2] (0 :: int) = 1 \<and> count_list [0, 2] (1 :: int) = 0 \<and>
   count_list [0, 2] (2 :: int) = 1"
proof -
  have l: "0 < length [trips]" by simp
  have h: "wf_frame ([trips] ! 0)"
    "column ([trips] ! 0) ''fare_amount'' = Some (Float64 [Fin 10, Fin 0, Fin 8])"
    "column ([trips] ! 0) ''tip_amount'' = Some (Float64 [Fin 2, Fin 1, NaN])"
    "column ([trips] ! 0) ''passenger_count'' = Some (Float64 [Fin 1, Fin 2, NaN])"
    "column ([trips] ! 0) ''tpep_pickup_datetime'' = Some (Datetime64
       [Some \<lparr>year = 2019, month = 1, day = 7, hour = 13, minute = 45, second = 0\<rparr>,
        Some \<lparr>year = 2019, month = 1, day = 8, hour = 9, minute = 5, second = 30\<rparr>,
        None])"
    by (simp_all add: wf_trips column_trips column_trips_pickup)
  have d: "distinct (index ([trips] ! 0))" and i: "index ([trips] ! 0) = [0, 1, 2]"
    by (simp_all add: trips_def)
  have o: "index trips_out = [0, 2]"
    by (simp add: trips_out_def)
  from prep_df_rows[OF l h, of no_parse] d
  have c: "\<forall>i<length [Fin 10, Fin 0, Fin 8].
             count_list (index trips_out) (index ([trips] ! 0) ! i) =
               (if float_gt ([Fin 10, Fin 0, Fin 8] ! i) (Fin 0) then 1 else 0)"
    by (auto simp: trips_run)
  from c[rule_format, of 0] c[rule_format, of 1] c[rule_format, of 2]
  have "count_list [0, 2] (0 :: int) = 1" "count_list [0, 2] (1 :: int) = 0"
    "count_list [0, 2] (2 :: int) = 1"
    unfolding i o by simp_all
  with l h d trips_run i o show ?thesis by blast
qed

text \<open>
  C3. No division by zero. After the first line of \<open>prep_df\<close>, the column
  \<open>fare_amount\<close> of \<open>df\<close>, which is the divisor when the next line computes the label,
  has numeric cells that are all greater than 0, so that none is 0.
\<close>

theorem prep_df_divisor_positive:
  assumes "prep_filter st r = Inr (st1, df)"
  shows "\<exists>fare ys. attr st1 df ''fare_amount'' = Inr fare \<and> numeric fare = Inr ys \<and>
           (\<forall>y\<in>set ys. float_gt y (Fin 0) \<and> y \<noteq> Fin 0)"
proof -
  have r: "r < length st"
    using assms by (cases "r < length st") (simp_all add: prep_filter_def attr_def fetch_def)
  let ?t = "st ! r"
  from assms obtain e fs t2 where
    e: "column ?t ''fare_amount'' = Some e" "numeric e = Inr fs"
       "getitem_cols (getitem_mask ?t (map (\<lambda>x. float_gt x (Fin 0)) fs)) raw_features = Inr t2"
       "st1 = st @ [getitem_mask ?t (map (\<lambda>x. float_gt x (Fin 0)) fs), t2, t2]"
       "df = length st + 2"
    by (auto simp: prep_filter_val[OF r] bind_eq_Inr getattr_def column_def series_gt_def
             split: option.splits)
  let ?m = "map (\<lambda>x. float_gt x (Fin 0)) fs"
  from getitem_cols_raw[OF e(3)] e(1) obtain a b c where
    "t2 = \<lparr>index = index (getitem_mask ?t ?m),
                columns = [(''tpep_pickup_datetime'', a), (''passenger_count'', b),
                           (''tip_amount'', c), (''fare_amount'', series_select ?m e)]\<rparr>"
    by (auto simp: column_getitem_mask)
  then have c: "column t2 ''fare_amount'' = Some (series_select ?m e)"
    by (simp add: column_def)
  have a: "attr st1 df ''fare_amount'' = Inr (series_select ?m e)"
    using c by (simp add: e(4,5) attr_def fetch_def nth_append getattr_def column_def)
  from numeric_select_ok[OF e(2)] obtain ys where ys: "numeric (series_select ?m e) = Inr ys"
    by blast
  from numeric_select_pos[OF e(2) ys] a ys show ?thesis
    by (auto dest: float_gt_pos)
qed

theorem prep_df_divisor_positive_witness:
  "prep_filter [trips] 0 = Inr ([trips, trips_store ! 1, trips_store ! 2, trips_store ! 2], 3) \<and>
   attr [trips, trips_store ! 1, trips_store ! 2, trips_store ! 2] 3 ''fare_amount'' =
     Inr (Float64 [Fin 10, Fin 8]) \<and>
   float_gt (Fin 10) (Fin 0) \<and> float_gt (Fin 8) (Fin 0)"
proof -
  have a: "attr [trips, trips_store ! 1, trips_store ! 2, trips_store ! 2] 3 ''fare_amount'' =
             Inr (Float64 [Fin 10, Fin 8])"
    by (simp add: attr_def fetch_def getattr_def trips_store_def)
  from prep_df_divisor_positive[OF trips_filter_run] a
  have "\<forall>y\<in>set [Fin 10, Fin 8]. float_gt y (Fin 0) \<and> y \<noteq> Fin 0"
    by auto
  then have "float_gt (Fin 10) (Fin 0)" "float_gt (Fin 8) (Fin 0)"
    by simp_all
  with trips_filter_run a show ?thesis by blast
qed

text \<open>
  C4. The week hour. Let the fare column of the input be a float column with cells
  \<open>fs\<close>. For every row of the table returned whose pickup timestamp is present,
  \<open>pickup_week_hour\<close> is \<open>pickup_weekday * 24 + pickup_hour\<close>. For a row whose pickup
  timestamp is missing, the three columns hold \<open>-1\<close>.
\<close>

theorem prep_df_week_hour:
  assumes "prep_df_out pf st r = Inr out"
    and "wf_frame (st ! r)"
    and "column (st ! r) ''fare_amount'' = Some (Float64 fs)"
  shows "\<exists>ds wd hr wh.
           column (st ! r) ''tpep_pickup_datetime'' = Some (Datetime64 ds) \<and>
           column out ''pickup_weekday'' = Some (Float64 wd) \<and>
           column out ''pickup_hour'' = Some (Float64 hr) \<and>
           column out ''pickup_week_hour'' = Some (Float64 wh) \<and>
           length wd = length (kept fs) \<and> length hr = length (kept fs) \<and>
           length wh = length (kept fs) \<and>
           (\<forall>j<length (kept fs).
              case ds ! (kept fs ! j) of
                Some t \<Rightarrow> wh ! j = float_add (float_mul (wd ! j) (Fin 24)) (hr ! j)
              | None \<Rightarrow> wd ! j = Fin (- 1) \<and> hr ! j = Fin (- 1) \<and> wh ! j = Fin (- 1))"
proof -
  from prep_out_kept[OF assms] obtain ix ds pcs xs ys where
    d: "column (st ! r) ''tpep_pickup_datetime'' = Some (Datetime64 ds)"
    and o: "out = out_frame ix (map (\<lambda>i. ds ! i) (kept fs)) pcs xs ys"
    by blast
  show ?thesis
    unfolding o using d
    by (auto simp: column_out_frame dt_cell_def fill_def split: option.splits)
qed

theorem prep_df_week_hour_witness:
  "prep_df_out no_parse [trips] 0 = Inr trips_out \<and> wf_frame ([trips] ! 0) \<and>
   column ([trips] ! 0) ''fare_amount'' = Some (Float64 [Fin 10, Fin 0, Fin 8]) \<and>
   kept [Fin 10, Fin 0, Fin 8] = [0, 2] \<and>
   (\<exists>wd hr wh. column trips_out ''pickup_weekday'' = Some (Float64 wd) \<and>
      column trips_out ''pickup_hour'' = Some (Float64 hr) \<and>
      column trips_out ''pickup_week_hour'' = Some (Float64 wh) \<and>
      wh ! 0 = float_add (float_mul (wd ! 0) (Fin 24)) (hr ! 0) \<and>
      wd ! 1 = Fin (- 1) \<and> hr ! 1 = Fin (- 1) \<and> wh ! 1 = Fin (- 1))"
proof -
  have h: "wf_frame ([trips] ! 0)"
    "column ([trips] ! 0) ''fare_amount'' = Some (Float64 [Fin 10, Fin 0, Fin 8])"
    by (simp_all add: wf_trips column_trips)
  have t: "column ([trips] ! 0) ''tpep_pickup_datetime'' = Some (Datetime64
            [Some \<lparr>year = 2019, month = 1, day = 7, hour = 13, minute = 45, second = 0\<rparr>,
             Some \<lparr>year = 2019, month = 1, day = 8, hour = 9, minute = 5, second = 30\<rparr>,
             None])"
    by (simp add: column_def trips_def)
  from prep_df_week_hour[OF trips_run h] t obtain wd hr wh where
    c: "column trips_out ''pickup_weekday'' = Some (Float64 wd)"
       "column trips_out ''pickup_hour'' = Some (Float64 hr)"
       "column trips_out ''pickup_week_hour'' = Some (Float64 wh)"
    and a: "\<forall>j<length (kept [Fin 10, Fin 0, Fin 8]).
              case [Some \<lparr>year = 2019, month = 1, day = 7, hour = 13, minute = 45, second = 0\<rparr>,
                    Some \<lparr>year = 2019, month = 1, day = 8, hour = 9, minute = 5, second = 30\<rparr>,
                    None] ! (kept [Fin 10, Fin 0, Fin 8] ! j) of
                Some t \<Rightarrow> wh ! j = float_add (float_mul (wd ! j) (Fin 24)) (hr ! j)
              | None \<Rightarrow> wd ! j = Fin (- 1) \<and> hr ! j = Fin (- 1) \<and> wh ! j = Fin (- 1)"
    by auto
  from a[rule_format, of 0] have "wh ! 0 = float_add (float_mul (wd ! 0) (Fin 24)) (hr ! 0)"
    by (simp add: kept_trips)
  moreover from a[rule_format, of 1]
  have "wd ! 1 = Fin (- 1) \<and> hr ! 1 = Fin (- 1) \<and> wh ! 1 = Fin (- 1)"
    by (simp add: kept_trips)
  ultimately show ?thesis
    using trips_run h kept_trips c by blast
qed

text \<open>
  The equation does not hold for every row. The third row of \<open>trips\<close> has no pickup
  timestamp; in the table returned its weekday, hour and week hour are all \<open>-1\<close>, and
  \<open>-1 * 24 + -1\<close> is \<open>-25\<close>.
\<close>

theorem week_hour_counterexample:
  "prep_df_out no_parse [trips] 0 = Inr trips_out \<and>
   column trips_out ''pickup_weekday'' = Some (Float64 [Fin 0, Fin (- 1)]) \<and>
   column trips_out ''pickup_hour'' = Some (Float64 [Fin 13, Fin (- 1)]) \<and>
   column trips_out ''pickup_week_hour'' = Some (Float64 [Fin 13, Fin (- 1)]) \<and>
   float_add (float_mul ([Fin 0, Fin (- 1)] ! 1) (Fin 24)) ([Fin 13, Fin (- 1)] ! 1) = Fin (- 25) \<and>
   [Fin 13, Fin (- 1)] ! 1 \<noteq> Fin (- 25)"
  by (simp add: trips_run column_trips_out)

text \<open>
  C5. Every cell of the table returned is a float and none is missing, and what was
  missing is \<open>-1\<close>. Let the input be a table with distinct column names, and let
  \<open>sel\<close> be the seven columns that the last line selects from \<open>df\<close>. The table
  returned has the row labels and the column names of \<open>sel\<close>. For a float column of
  \<open>sel\<close>, the column returned has the same cells, except that every NaN is \<open>-1\<close>.
  For a column of strings, a missing cell is \<open>-1\<close> and a string is its value as a
  float (\<open>-1\<close> where that is NaN). No selected column holds timestamps. So every
  column returned is a float64 column without NaN.
\<close>

theorem prep_df_all_float:
  assumes "prep_df_out pf st r = Inr out"
    and "wf_frame (st ! r)"
  shows "\<exists>st1 df st2 d sel.
           prep_filter st r = Inr (st1, df) \<and> prep_assign st1 df = Inr st2 \<and>
           fetch st2 df = Inr d \<and> getitem_cols d (features @ [label]) = Inr sel \<and>
           index out = index sel \<and> map fst (columns out) = map fst (columns sel) \<and>
           (\<forall>k<length (columns sel).
              case snd (columns sel ! k) of
                Float64 xs \<Rightarrow>
                  snd (columns out ! k) = Float64 (map (\<lambda>x. if x = NaN then Fin (- 1) else x) xs)
              | Object xs \<Rightarrow>
                  (\<exists>ys. snd (columns out ! k) = Float64 ys \<and> length ys = length xs \<and>
                     (\<forall>i<length xs.
                        case xs ! i of
                          None \<Rightarrow> ys ! i = Fin (- 1)
                        | Some s \<Rightarrow> (\<exists>v. pf s = Some v \<and> ys ! i = (if v = NaN then Fin (- 1) else v))))
              | Datetime64 xs \<Rightarrow> False) \<and>
           (\<forall>c\<in>set (columns out). \<exists>xs. snd c = Float64 xs \<and> NaN \<notin> set xs)"
proof -
  from prep_out_frame[OF assms(1)] obtain ix ds pcs xs ys where "out = out_frame ix ds pcs xs ys"
    by blast
  then have "\<forall>c\<in>set (columns out). \<exists>xs. snd c = Float64 xs \<and> NaN \<notin> set xs"
    by (auto simp: out_frame_def fill_not_NaN fill_not_NaN[symmetric])
  with filled_cells[OF assms(1)] show ?thesis
    by blast
qed

theorem prep_df_all_float_witness:
  "prep_df_out no_parse [trips] 0 = Inr trips_out \<and> wf_frame ([trips] ! 0) \<and>
   getitem_cols (trips_store ! 3) (features @ [label]) = Inr (trips_store ! 4) \<and>
   snd (columns (trips_store ! 4) ! 5) = Float64 [Fin 1, NaN] \<and>
   snd (columns trips_out ! 5) = Float64 [Fin 1, Fin (- 1)] \<and>
   (''passenger_count'', Float64 [Fin 1, Fin (- 1)]) \<in> set (columns trips_out) \<and>
   NaN \<notin> set [Fin 1, Fin (- 1)] \<and>
   prep_df_out parse_count [counted] 0 = Inr counted_out \<and> wf_frame ([counted] ! 0) \<and>
   getitem_cols counted_df (features @ [label]) = Inr counted_sel \<and>
   snd (columns counted_sel ! 5) = Object [Some ''2'', None] \<and>
   parse_count ''2'' = Some (Fin 2) \<and>
   (\<exists>ys. snd (columns counted_out ! 5) = Float64 ys \<and> ys ! 0 = Fin 2 \<and> ys ! 1 = Fin (- 1))"
proof -
  have w: "wf_frame ([trips] ! 0)" "wf_frame ([counted] ! 0)"
    by (simp_all add: wf_trips wf_counted)
  from prep_df_all_float[OF trips_run w(1)] obtain st1 df st2 d sel where
    t: "prep_filter [trips] 0 = Inr (st1, df)" "prep_assign st1 df = Inr st2"
       "fetch st2 df = Inr d" "getitem_cols d (features @ [label]) = Inr sel"
    and tc: "\<forall>k<length (columns sel).
              case snd (columns sel ! k) of
                Float64 xs \<Rightarrow>
                  snd (columns trips_out ! k) =
                    Float64 (map (\<lambda>x. if x = NaN then Fin (- 1) else x) xs)
              | Object xs \<Rightarrow>
                  (\<exists>ys. snd (columns trips_out ! k) = Float64 ys \<and> length ys = length xs \<and>
                     (\<forall>i<length xs.
                        case xs ! i of
                          None \<Rightarrow> ys ! i = Fin (- 1)
                        | Some s \<Rightarrow> (\<exists>v. no_parse s = Some v \<and>
                            ys ! i = (if v = NaN then Fin (- 1) else v))))
              | Datetime64 xs \<Rightarrow> False"
    and tn: "\<forall>c\<in>set (columns trips_out). \<exists>xs. snd c = Float64 xs \<and> NaN \<notin> set xs"
    by blast
  from t(1) have e1: "[trips, trips_store ! 1, trips_store ! 2, trips_store ! 2] = st1" "3 = df"
    by (simp_all only: trips_filter_run sum.inject prod.inject)
  from t(2) have e2: "[trips, trips_store ! 1, trips_store ! 2, trips_store ! 3] = st2"
    by (simp only: e1[symmetric] trips_assign_run sum.inject)
  from t(3) have e3: "d = trips_store ! 3"
    by (simp add: e1(2)[symmetric] e2[symmetric] fetch_def)
  from t(4) have sel: "sel = trips_store ! 4"
    by (simp only: e3 trips_sel_run sum.inject)
  have c5: "snd (columns (trips_store ! 4) ! 5) = Float64 [Fin 1, NaN]"
    and l5: "5 < length (columns (trips_store ! 4))"
    by (simp_all add: trips_store_def)
  from tc[unfolded sel, rule_format, OF l5] c5
  have o5: "snd (columns trips_out ! 5) = Float64 [Fin 1, Fin (- 1)]"
    by simp
  have m: "(''passenger_count'', Float64 [Fin 1, Fin (- 1)]) \<in> set (columns trips_out)"
    by (simp add: trips_out_def)
  from tn m have "\<exists>xs. Float64 [Fin 1, Fin (- 1)] = Float64 xs \<and> NaN \<notin> set xs"
    by fastforce
  then have nn: "NaN \<notin> set [Fin 1, Fin (- 1)]"
    by simp
  from prep_df_all_float[OF counted_run w(2)] obtain st1' df' st2' d' sel' where
    u: "prep_filter [counted] 0 = Inr (st1', df')" "prep_assign st1' df' = Inr st2'"
       "fetch st2' df' = Inr d'" "getitem_cols d' (features @ [label]) = Inr sel'"
    and uc: "\<forall>k<length (columns sel').
              case snd (columns sel' ! k) of
                Float64 xs \<Rightarrow>
                  snd (columns counted_out ! k) =
                    Float64 (map (\<lambda>x. if x = NaN then Fin (- 1) else x) xs)
              | Object xs \<Rightarrow>
                  (\<exists>ys. snd (columns counted_out ! k) = Float64 ys \<and> length ys = length xs \<and>
                     (\<forall>i<length xs.
                        case xs ! i of
                          None \<Rightarrow> ys ! i = Fin (- 1)
                        | Some s \<Rightarrow> (\<exists>v. parse_count s = Some v \<and>
                            ys ! i = (if v = NaN then Fin (- 1) else v))))
              | Datetime64 xs \<Rightarrow> False"
    by blast
  from u(1) have f1: "[counted, counted, counted, counted] = st1'" "3 = df'"
    by (simp_all only: counted_filter_run sum.inject prod.inject)
  from u(2) have f2: "[counted, counted, counted, counted_df] = st2'"
    by (simp only: f1[symmetric] counted_assign_run sum.inject)
  from u(3) have f3: "d' = counted_df"
    by (simp add: f1(2)[symmetric] f2[symmetric] fetch_def)
  from u(4) have sel': "sel' = counted_sel"
    by (simp only: f3 counted_sel_run sum.inject)
  have d5: "snd (columns counted_sel ! 5) = Object [Some ''2'', None]"
    and k5: "5 < length (columns counted_sel)"
    by (simp_all add: counted_sel_def)
  have pc: "parse_count ''2'' = Some (Fin 2)"
    by (simp add: parse_count_def)
  from uc[unfolded sel', rule_format, OF k5] d5 obtain ys where
    y: "snd (columns counted_out ! 5) = Float64 ys"
       "\<forall>i<length [Some ''2'', None].
          case [Some ''2'', None :: string option] ! i of
            None \<Rightarrow> ys ! i = Fin (- 1)
          | Some s \<Rightarrow> (\<exists>v. parse_count s = Some v \<and> ys ! i = (if v = NaN then Fin (- 1) else v))"
    by auto
  from y(2)[rule_format, of 0] pc have y0: "ys ! 0 = Fin 2"
    by simp
  from y(2)[rule_format, of 1] have y1: "ys ! 1 = Fin (- 1)"
    by simp
  from trips_run w trips_sel_run c5 o5 m nn counted_run counted_sel_run d5 pc y(1) y0 y1
  show ?thesis
    by blast
qed

text \<open>
  C6. For an input with distinct column names, the columns of the table returned are
  the six feature names and the label, in the order of \<open>features + [label]\<close>, and no
  other column.
\<close>

theorem prep_df_columns:
  assumes "prep_df_out pf st r = Inr out"
    and "wf_frame (st ! r)"
  shows "map fst (columns out) = features @ [label] \<and>
         set (map fst (columns out)) =
           {''pickup_weekday'', ''pickup_weekofyear'', ''pickup_hour'', ''pickup_week_hour'',
            ''pickup_minute'', ''passenger_count'', ''tip_fraction''} \<and>
         distinct (map fst (columns out))"
proof -
  from prep_out_frame[OF assms(1)] obtain ix ds pcs xs ys where "out = out_frame ix ds pcs xs ys"
    by blast
  then show ?thesis
    by (simp add: out_frame_def features_def label_def)
qed

theorem prep_df_columns_witness:
  "prep_df_out no_parse [trips] 0 = Inr trips_out \<and> wf_frame ([trips] ! 0) \<and>
   map fst (columns trips_out) =
     [''pickup_weekday'', ''pickup_weekofyear'', ''pickup_hour'', ''pickup_week_hour'',
      ''pickup_minute'', ''passenger_count'', ''tip_fraction'']"
proof -
  have w: "wf_frame ([trips] ! 0)"
    by (simp add: wf_trips)
  from prep_df_columns[OF trips_run w] trips_run w show ?thesis
    by (simp add: features_def label_def)
qed

text \<open>
  C7. Applying \<open>prep_df\<close> twice to the same table gives equal tables: a second call on
  the store that the first call has left returns a new object that is equal to the one
  the first call returned, and the first one is still what it was.
\<close>

theorem prep_df_twice:
  assumes "prep_df pf st r = Inr (st1, r1)"
  shows "\<exists>st2 r2. prep_df pf st1 r = Inr (st2, r2) \<and> r1 < length st1 \<and> r2 < length st2 \<and>
           st2 ! r2 = st1 ! r1 \<and> st2 ! r1 = st1 ! r1 \<and> r2 \<noteq> r1"
proof -
  have r: "r < length st"
    using assms by (cases "r < length st") (simp_all add: prep_df_dangling)
  from assms obtain news where
    n: "prep_val pf (st ! r) = Inr news" "st1 = st @ news" "r1 = length st + 5"
    by (auto simp: prep_df_val[OF r] bind_eq_Inr)
  from prep_val_Inr[OF n(1)] have l: "length news = 6" by blast
  have r': "r < length st1" and same: "st1 ! r = st ! r"
    using r n(2) by (simp_all add: nth_append)
  have "prep_df pf st1 r = Inr (st1 @ news, length st1 + 5)"
    by (simp add: prep_df_val[OF r'] same n(1))
  then show ?thesis
    using n(2,3) l by (simp add: nth_append)
qed

theorem prep_df_twice_witness:
  "prep_df no_parse [trips] 0 = Inr (trips_store, 6) \<and>
   (\<exists>st2 r2. prep_df no_parse trips_store 0 = Inr (st2, r2) \<and> st2 ! r2 = trips_out)"
proof -
  from prep_df_twice[OF trips_store_run] obtain st2 r2 where
    s: "prep_df no_parse trips_store 0 = Inr (st2, r2)" "st2 ! r2 = trips_store ! 6"
    by blast
  have "trips_store ! 6 = trips_out"
    by (simp add: trips_store_def)
  with s trips_store_run show ?thesis
    by auto
qed

text \<open>
  C8. The worked example: for the trip with fare 10 and tip 2 that was picked up on
  Monday 2019-01-07 at 13:45, the row returned has label 0.2, weekday 0, hour 13,
  week hour 13 and minute 45 (and week of year 2, and the passenger count 1).
\<close>

theorem prep_df_example:
  "prep_df_out pf [monday_trip] 0 =
     Inr \<lparr>index = [0],
          columns =
            [(''pickup_weekday'', Float64 [Fin 0]),
             (''pickup_weekofyear'', Float64 [Fin 2]),
             (''pickup_hour'', Float64 [Fin 13]),
             (''pickup_week_hour'', Float64 [Fin 13]),
             (''pickup_minute'', Float64 [Fin 45]),
             (''passenger_count'', Float64 [Fin 1]),
             (''tip_fraction'', Float64 [Fin 0.2])]\<rparr>"
  by code_simp

text \<open>
  C9. \<open>prep_df\<close> leaves its input unchanged: the store afterwards is the store before
  with new objects added behind it, so that the input table, and every other object
  that existed before the call, has the rows, columns and cells it had. The reference
  returned is one of the new objects.
\<close>

theorem prep_df_input_unchanged:
  assumes "prep_df pf st r = Inr (st', r')"
  shows "r < length st \<and> length st \<le> length st' \<and> take (length st) st' = st \<and>
         st' ! r = st ! r \<and> length st \<le> r'"
proof -
  have r: "r < length st"
    using assms by (cases "r < length st") (simp_all add: prep_df_dangling)
  from assms obtain news where "st' = st @ news" "r' = length st + 5"
    by (auto simp: prep_df_val[OF r] bind_eq_Inr)
  with r show ?thesis by (simp add: nth_append)
qed

theorem prep_df_input_unchanged_witness:
  "prep_df no_parse [trips] 0 = Inr (trips_store, 6) \<and> trips_store ! 0 = trips"
  using prep_df_input_unchanged[OF trips_store_run] trips_store_run
  by simp

text \<open>
  C10. Row order. Let the input have float columns \<open>fare_amount\<close>, \<open>tip_amount\<close> and
  \<open>passenger_count\<close> with cells \<open>fs\<close>, \<open>ts\<close> and \<open>ps\<close> and a timestamp column
  \<open>tpep_pickup_datetime\<close> with cells \<open>ds\<close>, and let \<open>kept fs\<close> be the positions of the
  input rows with \<open>fare_amount > 0\<close>, in increasing order. Then \<open>prep_df\<close> returns the
  table whose \<open>j\<close>-th row is derived from the input row at the \<open>j\<close>-th of these
  positions: it has the label of that row, and each of its cells is computed from the
  cells of that row.
\<close>

theorem prep_df_row_order:
  assumes "r < length st"
    and "wf_frame (st ! r)"
    and "column (st ! r) ''fare_amount'' = Some (Float64 fs)"
    and "column (st ! r) ''tip_amount'' = Some (Float64 ts)"
    and "column (st ! r) ''passenger_count'' = Some (Float64 ps)"
    and "column (st ! r) ''tpep_pickup_datetime'' = Some (Datetime64 ds)"
  shows "sorted_wrt (<) (kept fs) \<and>
         set (kept fs) = {i. i < length fs \<and> float_gt (fs ! i) (Fin 0)} \<and>
         prep_df_out pf st r =
           Inr
             \<lparr>index = map (\<lambda>i. index (st ! r) ! i) (kept fs),
              columns =
                [(''pickup_weekday'',
                    Float64 (map (\<lambda>i. fill (Fin (- 1)) (dt_cell weekday (ds ! i))) (kept fs))),
                 (''pickup_weekofyear'',
                    Float64 (map (\<lambda>i. fill (Fin (- 1)) (dt_cell weekofyear (ds ! i))) (kept fs))),
                 (''pickup_hour'',
                    Float64 (map (\<lambda>i. fill (Fin (- 1)) (dt_cell hour (ds ! i))) (kept fs))),
                 (''pickup_week_hour'',
                    Float64 (map (\<lambda>i. fill (Fin (- 1))
                       (float_add (float_mul (dt_cell weekday (ds ! i)) (Fin 24))
                          (dt_cell hour (ds ! i)))) (kept fs))),
                 (''pickup_minute'',
                    Float64 (map (\<lambda>i. fill (Fin (- 1)) (dt_cell minute (ds ! i))) (kept fs))),
                 (''passenger_count'',
                    Float64 (map (\<lambda>i. fill (Fin (- 1)) (ps ! i)) (kept fs))),
                 (''tip_fraction'',
                    Float64 (map (\<lambda>i. fill (Fin (- 1)) (float_div (ts ! i) (fs ! i))) (kept fs)))]\<rparr>"
proof -
  from prep_df_out_ok[OF assms(1,3-6)] obtain out where o: "prep_df_out pf st r = Inr out"
    by blast
  from frame_of_out[OF o assms(2-5)] assms(6) o show ?thesis
    by auto
qed

theorem prep_df_row_order_witness:
  "0 < length [trips] \<and> wf_frame ([trips] ! 0) \<and>
   column ([trips] ! 0) ''fare_amount'' = Some (Float64 [Fin 10, Fin 0, Fin 8]) \<and>
   column ([trips] ! 0) ''tip_amount'' = Some (Float64 [Fin 2, Fin 1, NaN]) \<and>
   column ([trips] ! 0) ''passenger_count'' = Some (Float64 [Fin 1, Fin 2, NaN]) \<and>
   column ([trips] ! 0) ''tpep_pickup_datetime'' = Some (Datetime64
     [Some \<lparr>year = 2019, month = 1, day = 7, hour = 13, minute = 45, second = 0\<rparr>,
      Some \<lparr>year = 2019, month = 1, day = 8, hour = 9, minute = 5, second = 30\<rparr>,
      None]) \<and>
   kept [Fin 10, Fin 0, Fin 8] = [0, 2] \<and>
   prep_df_out no_parse [trips] 0 = Inr trips_out \<and>
   index trips_out = map (\<lambda>i. index ([trips] ! 0) ! i) (kept [Fin 10, Fin 0, Fin 8]) \<and>
   index trips_out = [0, 2]"
proof -
  have l: "0 < length [trips]" by simp
  have h: "wf_frame ([trips] ! 0)"
    "column ([trips] ! 0) ''fare_amount'' = Some (Float64 [Fin 10, Fin 0, Fin 8])"
    "column ([trips] ! 0) ''tip_amount'' = Some (Float64 [Fin 2, Fin 1, NaN])"
    "column ([trips] ! 0) ''passenger_count'' = Some (Float64 [Fin 1, Fin 2, NaN])"
    "column ([trips] ! 0) ''tpep_pickup_datetime'' = Some (Datetime64
       [Some \<lparr>year = 2019, month = 1, day = 7, hour = 13, minute = 45, second = 0\<rparr>,
        Some \<lparr>year = 2019, month = 1, day = 8, hour = 9, minute = 5, second = 30\<rparr>,
        None])"
    by (simp_all add: wf_trips column_trips column_trips_pickup)
  from prep_df_row_order[OF l h, of no_parse] obtain cs where
    o: "prep_df_out no_parse [trips] 0 =
          Inr \<lparr>index = map (\<lambda>i. index ([trips] ! 0) ! i) (kept [Fin 10, Fin 0, Fin 8]),
               columns = cs\<rparr>"
    by blast
  have i: "index trips_out = map (\<lambda>i. index ([trips] ! 0) ! i) (kept [Fin 10, Fin 0, Fin 8])"
    using o arg_cong[OF o[unfolded trips_run, simplified], of index] by simp
  then have "index trips_out = [0, 2]"
    by (simp add: kept_trips trips_def)
  with l h kept_trips trips_run i show ?thesis by blast
qed
end
